theory Spec2Isabelle
  imports Complex_Main "HOL-Library.List_Lexorder" "HOL-Library.Char_ord"
    "HOL-Library.Product_Lexorder"
begin

section \<open>Values shared by the preprocessing stage and the validator\<close>

text \<open>
  Calendar dates are day numbers (\<open>int\<close>), counted so that day 0 is a Monday; pandas'
  \<open>weekday()\<close> (0 = Monday) is then the remainder modulo 7. Timestamps carry no time of
  day here, so \<open>normalize()\<close> is the identity. A time of day (\<open>datetime.time\<close>) is the
  number of minutes after midnight; the order on times is the order on these numbers.
  A missing cell (NaN, NaT, \<open>pd.NA\<close>, \<open>None\<close>) is \<open>None\<close>.
  Contract hours are floats in the source; they are exact rationals here.
\<close>

type_synonym date = int
type_synonym time_of_day = nat

definition weekday :: "date \<Rightarrow> int" where
  "weekday d = d mod 7"

definition hm :: "nat \<Rightarrow> nat \<Rightarrow> time_of_day" where
  "hm h m = h * 60 + m"

datatype error = KeyError | IndexError | ValueError | TypeError

text \<open>\<open>Series.round()\<close> rounds a half to the even neighbour.\<close>

definition round_half_even :: "rat \<Rightarrow> int" where
  "round_half_even q =
     (let f = \<lfloor>q\<rfloor>; d = q - of_int f
      in if d < 1 / 2 then f else if 1 / 2 < d then f + 1
         else if even f then f else f + 1)"

fun minimum :: "int list \<Rightarrow> int" where
  "minimum [] = 0"
| "minimum (x # xs) = fold min xs x"

fun maximum :: "int list \<Rightarrow> int" where
  "maximum [] = 0"
| "maximum (x # xs) = fold max xs x"

text \<open>\<open>Series.nunique()\<close> and the sorted keys of a \<open>groupby\<close>.\<close>

definition nunique :: "'a list \<Rightarrow> int" where
  "nunique xs = int (length (remdups xs))"

definition group_keys :: "('a::linorder) list \<Rightarrow> 'a list" where
  "group_keys ks = sort (remdups ks)"

section \<open>Preprocessing: the shift template\<close>

definition Shifts :: "string list" where
  "Shifts = [''D1'', ''D2'', ''D3'', ''D4'', ''FM'', ''GD'', ''KOK'', ''A1'', ''A2'', ''A3'', ''GA'', ''N'']"

definition Begintijd :: "time_of_day list" where
  "Begintijd = [hm 7 0, hm 7 30, hm 7 30, hm 8 45, hm 8 0, hm 8 0, hm 15 0, hm 15 0,
     hm 15 30, hm 18 30, hm 16 0, hm 22 45]"

definition Eindtijd :: "time_of_day list" where
  "Eindtijd = [hm 15 0, hm 15 0, hm 14 0, hm 12 45, hm 12 30, hm 14 0, hm 19 30, hm 23 0,
     hm 22 30, hm 22 30, hm 22 0, hm 7 0]"

definition Duur :: "rat list" where
  "Duur = [8, 15 / 2, 13 / 2, 4, 9 / 2, 6, 9 / 2, 8, 7, 4, 6, 33 / 4]"

definition Maandag :: "nat list" where "Maandag = [1,1,1,1,1,1,1,1,1,1,1,1]"
definition Dinsdag :: "nat list" where "Dinsdag = [1,1,1,1,1,1,1,1,1,1,1,1]"
definition Woensdag :: "nat list" where "Woensdag = [1,1,1,1,1,1,1,1,1,1,1,1]"
definition Donderdag :: "nat list" where "Donderdag = [1,1,1,0,1,1,1,1,1,1,1,1]"
definition Vrijdag :: "nat list" where "Vrijdag = [1,1,1,1,0,1,1,1,1,1,1,1]"
definition Zaterdag :: "nat list" where "Zaterdag = [1,1,1,0,0,1,1,1,1,1,1,1]"
definition Zondag :: "nat list" where "Zondag = [1,1,1,1,0,1,1,1,1,0,1,1]"

definition Deskundigheden :: "int list list" where
  "Deskundigheden = [[1,2], [2], [3], [3], [6], [4], [5], [2], [3], [3], [4], [2]]"

text \<open>The day columns in the order of \<open>days\<close>; the position is \<open>day_map[day]\<close>.\<close>

definition days :: "nat list list" where
  "days = [Maandag, Dinsdag, Woensdag, Donderdag, Vrijdag, Zaterdag, Zondag]"

record shift_requirement =
  rq_shift_name :: string
  rq_day_of_week :: int
  rq_start_time :: time_of_day
  rq_end_time :: time_of_day
  rq_qualification :: "int list"
  rq_duration :: rat

definition shift_requirements :: "shift_requirement list" where
  "shift_requirements =
     concat (map (\<lambda>idx.
       concat (map (\<lambda>day.
         if (days ! day) ! idx = 1
         then [\<lparr>rq_shift_name = Shifts ! idx, rq_day_of_week = int day,
                 rq_start_time = Begintijd ! idx, rq_end_time = Eindtijd ! idx,
                 rq_qualification = Deskundigheden ! idx, rq_duration = Duur ! idx\<rparr>]
         else []) [0..<7])) [0..<length Shifts])"

section \<open>Preprocessing: dated shift instances\<close>

record shift_instance =
  shift_id :: nat
  shift_name :: string
  shift_date :: date
  week :: int
  global_week :: int
  day_of_week :: int
  absolute_day :: int
  start_time :: time_of_day
  end_time :: time_of_day
  duration_min :: int
  qualification :: "int list"
  is_night :: bool
  day_key :: "int \<times> int"

text \<open>
  A row of a prior-period table or of a proposed assignment: the shift's columns and the
  worker (\<open>None\<close> for an unfilled shift).
\<close>

record assignment = shift_instance +
  employee_id :: "string option"

text \<open>\<open>reset_index(drop=True)\<close> followed by \<open>shift_id = index\<close>.\<close>

definition renumber :: "shift_instance list \<Rightarrow> shift_instance list" where
  "renumber xs = map (\<lambda>(i, s). s\<lparr>shift_id := i\<rparr>) (enumerate 0 xs)"

definition is_admin :: "shift_instance \<Rightarrow> bool" where
  "is_admin s = (shift_name s \<in> set [''KOK'', ''FM''])"

text \<open>One element of \<open>all_shift_instances\<close> with the columns added on lines 96 to 111.\<close>

definition shift_row :: "date \<Rightarrow> date \<Rightarrow> int \<Rightarrow> shift_requirement \<Rightarrow> shift_instance" where
  "shift_row start_date global_start_date wk row =
     (let sd = start_date + (wk * 7 + rq_day_of_week row)
      in \<lparr>shift_id = 0, shift_name = rq_shift_name row, shift_date = sd,
           week = wk + 1,
           global_week = (sd - global_start_date) div 7 + 1,
           day_of_week = rq_day_of_week row,
           absolute_day = wk * 7 + rq_day_of_week row,
           start_time = rq_start_time row, end_time = rq_end_time row,
           duration_min = round_half_even (rq_duration row * 60),
           qualification = rq_qualification row,
           is_night = (rq_shift_name row = ''N''),
           day_key = (wk + 1, rq_day_of_week row)\<rparr>)"

definition all_shift_instances :: "date \<Rightarrow> date \<Rightarrow> int \<Rightarrow> shift_instance list" where
  "all_shift_instances start_date global_start_date num_weeks =
     renumber (concat (map (\<lambda>wk. map (shift_row start_date global_start_date wk) shift_requirements)
                  [0..num_weeks - 1]))"

definition shifts_constant_of :: "shift_instance list \<Rightarrow> shift_instance list" where
  "shifts_constant_of all_shifts = renumber (filter is_admin all_shifts)"

definition assignable_of :: "shift_instance list \<Rightarrow> shift_instance list" where
  "assignable_of all_shifts = renumber (filter (\<lambda>s. \<not> is_admin s) all_shifts)"

section \<open>Preprocessing: prior-period assignments\<close>

text \<open>
  \<open>astype(str)\<close> followed by \<open>x.split('.')[0] if '.' in x else x\<close>. The input column holds
  the text of each cell; a missing cell prints as \<open>nan\<close>.
\<close>

definition prev_employee_id :: "string option \<Rightarrow> string" where
  "prev_employee_id x =
     (let s = (case x of None \<Rightarrow> ''nan'' | Some t \<Rightarrow> t)
      in if CHR ''.'' \<in> set s then takeWhile (\<lambda>c. c \<noteq> CHR ''.'') s else s)"

definition rows_of :: "assignment list option \<Rightarrow> assignment list" where
  "rows_of prev = (case prev of None \<Rightarrow> [] | Some rows \<Rightarrow> rows)"

text \<open>\<open>prev_assignments is not None and not prev_assignments.empty\<close>\<close>

definition supplied :: "assignment list option \<Rightarrow> bool" where
  "supplied prev = (rows_of prev \<noteq> [])"

text \<open>The epoch Monday of lines 64 to 66 and 79, and the start date of lines 74 and 78.\<close>

definition next_monday :: "date \<Rightarrow> date" where
  "next_monday today = today + (7 - weekday today) mod 7"

definition global_start_date_of :: "date \<Rightarrow> assignment list option \<Rightarrow> date" where
  "global_start_date_of today prev =
     (if supplied prev
      then (let m = minimum (map shift_date (rows_of prev)) in m - weekday m)
      else next_monday today)"

definition start_date_of :: "date \<Rightarrow> assignment list option \<Rightarrow> date" where
  "start_date_of today prev =
     (if supplied prev then maximum (map shift_date (rows_of prev)) + 1 else next_monday today)"

definition prev_with_global_week :: "date \<Rightarrow> assignment list \<Rightarrow> assignment list" where
  "prev_with_global_week global_start_date rows =
     map (\<lambda>r. r\<lparr>employee_id := Some (prev_employee_id (employee_id r)),
                global_week := (shift_date r - global_start_date) div 7\<rparr>) rows"

text \<open>Lines 129 to 137: the look-back built when no prior assignments are supplied.\<close>

definition lookback :: "date \<Rightarrow> shift_instance list \<Rightarrow> assignment list" where
  "lookback start_date shifts =
     (let p1 = filter (\<lambda>s. shift_date s < start_date) shifts;
          p2 = filter (\<lambda>s. start_date - 28 \<le> shift_date s) p1;
          p3 = map (\<lambda>s. s\<lparr>global_week := global_week s - 4\<rparr>) p2
      in map (\<lambda>s. shift_instance.extend s (assignment.fields None)) p3)"

definition prev_assignments_of ::
  "date \<Rightarrow> assignment list option \<Rightarrow> shift_instance list \<Rightarrow> assignment list" where
  "prev_assignments_of today prev shifts =
     (if supplied prev
      then prev_with_global_week (global_start_date_of today prev) (rows_of prev)
      else lookback (start_date_of today prev) shifts)"

section \<open>Preprocessing: workers\<close>

text \<open>
  A row of the worker roster. \<open>r_medewerker_id\<close> is the text of the id cell
  (\<open>astype(str)\<close>); the code columns and the day count are whole numbers.
\<close>

record werknemer =
  r_medewerker_id :: string
  r_wensen :: "string option"
  r_deskundigheid :: "int option"
  r_contract_soort :: "string option"
  r_contracturen :: "rat option"
  r_max_werkdgn_pw :: "int option"
  r_geboortedatum :: "(int \<times> int \<times> int) option"

record worker =
  medewerker_id :: string
  deskundigheid :: "int list"
  contract_soort :: "string option"
  contracturen :: "rat option"
  max_days_per_week :: int
  contract_hours :: rat
  contract_minutes :: int
  leeftijd :: "int option"

text \<open>\<open>x.lstrip('0').split('-')[0]\<close>\<close>

definition normalize_id :: "string \<Rightarrow> string" where
  "normalize_id x = takeWhile (\<lambda>c. c \<noteq> CHR ''-'') (dropWhile (\<lambda>c. c = CHR ''0'') x)"

text \<open>The decimal digits of \<open>str(int(x))\<close> for \<open>x \<ge> 10\<close>.\<close>

fun digits :: "nat \<Rightarrow> int list" where
  "digits n = (if n < 10 then [int n] else digits (n div 10) @ [int (n mod 10)])"

declare digits.simps [simp del]

text \<open>Lines 165 to 172; \<open>int(nan)\<close> raises \<open>ValueError\<close>.\<close>

definition unpack_deskundigheid :: "int option \<Rightarrow> error + int list" where
  "unpack_deskundigheid x =
     (case x of
        None \<Rightarrow> Inl ValueError
      | Some v \<Rightarrow> if v < 10 then Inr [v] else Inr (digits (nat v)))"

fun unpack_all :: "werknemer list \<Rightarrow> error + int list list" where
  "unpack_all [] = Inr []"
| "unpack_all (r # rs) =
     (case unpack_deskundigheid (r_deskundigheid r) of
        Inl e \<Rightarrow> Inl e
      | Inr lst \<Rightarrow> (case unpack_all rs of Inl e \<Rightarrow> Inl e | Inr lsts \<Rightarrow> Inr (lst # lsts)))"

definition excluded :: "int list \<Rightarrow> bool" where
  "excluded x = (5 \<in> set x \<or> 6 \<in> set x)"

definition imply_3 :: "int list \<Rightarrow> int list" where
  "imply_3 x = (if 7 \<in> set x \<and> 3 \<notin> set x then x @ [3] else x)"

text \<open>Line 187: the contract-hours cell after the on-call rule.\<close>

definition oproep_contracturen :: "string option \<Rightarrow> rat option \<Rightarrow> rat option" where
  "oproep_contracturen soort uren = (if soort = Some ''oproep'' then Some 0 else uren)"

definition fillna0 :: "('a::zero) option \<Rightarrow> 'a" where
  "fillna0 x = (case x of None \<Rightarrow> 0 | Some v \<Rightarrow> v)"

definition age_on :: "int \<times> int \<times> int \<Rightarrow> (int \<times> int \<times> int) option \<Rightarrow> int option" where
  "age_on current_date x =
     (case (current_date, x) of
        (_, None) \<Rightarrow> None
      | ((cy, cm, cd), Some (y, m, d)) \<Rightarrow>
          Some (cy - y - (if cm < m \<or> (cm = m \<and> cd < d) then 1 else 0)))"

text \<open>Lines 187 to 204 on one row whose qualification list is already built.\<close>

definition contract_columns :: "int \<times> int \<times> int \<Rightarrow> werknemer \<times> int list \<Rightarrow> worker" where
  "contract_columns current_date rq =
     (let r = fst rq;
          uren = oproep_contracturen (r_contract_soort r) (r_contracturen r);
          max_days = fillna0 (r_max_werkdgn_pw r);
          hours0 = fillna0 uren;
          hours = (if hours0 = 0 then of_int max_days * 9 else hours0)
      in \<lparr>medewerker_id = r_medewerker_id r, deskundigheid = snd rq,
           contract_soort = r_contract_soort r, contracturen = uren,
           max_days_per_week = max_days, contract_hours = hours,
           contract_minutes = round_half_even (hours * 60),
           leeftijd = age_on current_date (r_geboortedatum r)\<rparr>)"

definition normalize_workers :: "int \<times> int \<times> int \<Rightarrow> werknemer list \<Rightarrow> error + worker list" where
  "normalize_workers current_date df_werknemers =
     (let w1 = map (\<lambda>r. r\<lparr>r_medewerker_id := normalize_id (r_medewerker_id r)\<rparr>) df_werknemers;
          w2 = filter (\<lambda>r. r_wensen r \<noteq> Some ''niet plannen'') w1
      in case unpack_all w2 of
           Inl e \<Rightarrow> Inl e
         | Inr lsts \<Rightarrow>
             (let w3 = filter (\<lambda>rq. \<not> excluded (snd rq)) (zip w2 lsts);
                  w4 = map (\<lambda>rq. (fst rq, imply_3 (snd rq))) w3
              in Inr (map (contract_columns current_date) w4)))"

section \<open>Preprocessing: the fixed roster and the unavailability table\<close>

record vastrooster_row =
  v_medewerker_id :: string
  v_dag :: "string option"
  v_dienst :: "string option"
  v_weekvolgnr :: "int option"

definition day_map_const :: "(string \<times> int) list" where
  "day_map_const = [(''maandag'', 0), (''dinsdag'', 1), (''woensdag'', 2), (''donderdag'', 3),
     (''vrijdag'', 4), (''zaterdag'', 5), (''zondag'', 6)]"

definition vast_day_of_week :: "vastrooster_row \<Rightarrow> int option" where
  "vast_day_of_week v = (case v_dag v of None \<Rightarrow> None | Some d \<Rightarrow> map_of day_map_const d)"

text \<open>Line 221; a missing week number or weekday gives \<open>NaT\<close>.\<close>

definition vast_shift_date :: "date \<Rightarrow> vastrooster_row \<Rightarrow> date option" where
  "vast_shift_date start_date v =
     (case (v_weekvolgnr v, vast_day_of_week v) of
        (Some n, Some d) \<Rightarrow> Some (start_date + ((n - 1) * 7 + d))
      | _ \<Rightarrow> None)"

text \<open>\<open>find_shift_id\<close>: the id of the first administrative shift with that name and weekday.\<close>

definition find_shift_id :: "shift_instance list \<Rightarrow> vastrooster_row \<Rightarrow> nat option" where
  "find_shift_id shifts_constant v =
     (case filter (\<lambda>s. Some (shift_name s) = v_dienst v \<and> Some (day_of_week s) = vast_day_of_week v)
             shifts_constant of
        [] \<Rightarrow> None
      | m # _ \<Rightarrow> Some (shift_id m))"

record const_unavail =
  cu_medewerker_id :: string
  cu_datum :: "date option"
  cu_shift_id :: "nat option"

definition df_const_unavail_of ::
  "date \<Rightarrow> shift_instance list \<Rightarrow> vastrooster_row list \<Rightarrow> const_unavail list" where
  "df_const_unavail_of start_date shifts_constant df_vastrooster =
     map (\<lambda>v. \<lparr>cu_medewerker_id = normalize_id (v_medewerker_id v),
               cu_datum = vast_shift_date start_date v,
               cu_shift_id = find_shift_id shifts_constant v\<rparr>) df_vastrooster"

text \<open>Lines 237 and 238 for one worker id.\<close>

definition hours_to_subtract :: "shift_instance list \<Rightarrow> const_unavail list \<Rightarrow> string \<Rightarrow> int" where
  "hours_to_subtract shifts_constant cu emp =
     (let shift_ids = List.map_filter cu_shift_id (filter (\<lambda>c. cu_medewerker_id c = emp) cu)
      in sum_list (map duration_min (filter (\<lambda>s. shift_id s \<in> set shift_ids) shifts_constant)))"

definition subtract_for ::
  "shift_instance list \<Rightarrow> const_unavail list \<Rightarrow> string \<Rightarrow> worker list \<Rightarrow> worker list" where
  "subtract_for shifts_constant cu emp ws =
     map (\<lambda>w. if medewerker_id w = emp
              then w\<lparr>contract_minutes := contract_minutes w - hours_to_subtract shifts_constant cu emp\<rparr>
              else w) ws"

text \<open>The loop of lines 236 to 239 over the distinct ids in order of first appearance.\<close>

definition subtract_constant_schedule ::
  "shift_instance list \<Rightarrow> const_unavail list \<Rightarrow> worker list \<Rightarrow> worker list" where
  "subtract_constant_schedule shifts_constant cu ws =
     fold (subtract_for shifts_constant cu) (remdups (map cu_medewerker_id cu)) ws"

text \<open>
  A row of the unavailability table as read: the id's text, the parsed
  \<open>Datum beschikbaarheid\<close>, the status and the two parsed clock times.
\<close>

record onb_row =
  o_medewerker_id :: string
  o_datum_beschikbaarheid :: "date option"
  o_beschikbaarheid :: "string option"
  o_tijd_vanaf :: "time_of_day option"
  o_tijd_tm :: "time_of_day option"

record unavailability =
  Medewerker_id :: string
  Datum :: "date option"
  Beschikbaarheid :: string
  Beschikbaarheid_tijd_vanaf :: "time_of_day option"
  Beschikbaarheid_tijd_tm :: "time_of_day option"

definition constant_schedule_status :: string where
  "constant_schedule_status = ''Niet beschikbaar (constant schedule)''"

text \<open>
  Line 233 appends the fixed-roster rows under the columns \<open>Medewerker id\<close>, \<open>Datum\<close>,
  \<open>Beschikbaarheid\<close> and the two time columns. They have no \<open>Datum beschikbaarheid\<close>
  cell, and line 245 recomputes \<open>Datum\<close> from that column for every row, so the date
  computed on line 221 does not reach the output.
\<close>

definition appended_row :: "const_unavail \<Rightarrow> onb_row" where
  "appended_row c =
     \<lparr>o_medewerker_id = cu_medewerker_id c, o_datum_beschikbaarheid = None,
      o_beschikbaarheid = Some constant_schedule_status,
      o_tijd_vanaf = None, o_tijd_tm = None\<rparr>"

definition fill_status :: "string option \<Rightarrow> string" where
  "fill_status x = (case x of None \<Rightarrow> ''Onbekend'' | Some s \<Rightarrow> s)"

text \<open>Lines 245 to 250.\<close>

definition onb_columns :: "onb_row \<Rightarrow> unavailability" where
  "onb_columns r =
     \<lparr>Medewerker_id = o_medewerker_id r, Datum = o_datum_beschikbaarheid r,
      Beschikbaarheid = fill_status (o_beschikbaarheid r),
      Beschikbaarheid_tijd_vanaf = o_tijd_vanaf r,
      Beschikbaarheid_tijd_tm = o_tijd_tm r\<rparr>"

section \<open>Preprocessing: the returned model\<close>

text \<open>
  The fields of the returned dictionary that the validator and the statements below read.
  The remaining entries (\<open>emp_index\<close>, \<open>dur_min\<close>, the per-week and per-day id tables,
  the night-shift tables) are lookups derived from \<open>shifts\<close>.
\<close>

record model =
  shifts :: "shift_instance list"
  workers :: "worker list"
  onb :: "unavailability list"
  emp_ids :: "string list"
  weeks :: "int list"
  night_shifts :: "nat list"
  prev_assignments :: "assignment list"

definition vast_rows :: "vastrooster_row list option \<Rightarrow> vastrooster_row list" where
  "vast_rows df_vastrooster = (case df_vastrooster of None \<Rightarrow> [] | Some rows \<Rightarrow> rows)"

text \<open>
  \<open>today\<close> is the date read on line 77 and \<open>current_date\<close> the (year, month, day) read on
  line 200. With \<open>num_weeks \<le> 0\<close> the frame of shift instances has no columns and line 99
  raises \<open>KeyError\<close>.
\<close>

definition preprocess_data ::
  "date \<Rightarrow> int \<times> int \<times> int \<Rightarrow> werknemer list \<Rightarrow> onb_row list \<Rightarrow> assignment list option \<Rightarrow>
   vastrooster_row list option \<Rightarrow> int \<Rightarrow> error + model" where
  "preprocess_data today current_date df_werknemers df_onb prev df_vastrooster num_weeks =
     (let start_date = start_date_of today prev;
          global_start_date = global_start_date_of today prev;
          all_shifts = all_shift_instances start_date global_start_date num_weeks
      in if all_shifts = [] then Inl KeyError
         else
           (let shifts_constant = shifts_constant_of all_shifts;
                shifts1 = assignable_of all_shifts;
                prev1 = prev_assignments_of today prev shifts1
            in case normalize_workers current_date df_werknemers of
                 Inl e \<Rightarrow> Inl e
               | Inr workers0 \<Rightarrow>
                   (let cu = df_const_unavail_of start_date shifts_constant (vast_rows df_vastrooster);
                        df_onb1 = df_onb @ map appended_row cu;
                        workers1 = subtract_constant_schedule shifts_constant cu workers0
                    in Inr \<lparr>shifts = assignable_of shifts1,
                            workers = workers1,
                            onb = map onb_columns df_onb1,
                            emp_ids = map medewerker_id workers0,
                            weeks = group_keys (map week shifts1),
                            night_shifts = map shift_id (filter is_night shifts1),
                            prev_assignments = prev1\<rparr>)))"

section \<open>The validator\<close>

text \<open>
  Each constructor stands for one message of \<open>validate_auto_rooster\<close> and carries the
  values the message interpolates, in the order of the text.
\<close>

datatype violation =
    MultipleEmployees nat "string list"
  | MultipleShiftsOnDay string int date "nat list"
  | DayShiftAfterNight string date date
  | MaxWorkDays string int int int
  | ContractHours string int int int
  | FullyUnavailable string "date option" nat
  | UnavailableTime string "date option" nat time_of_day time_of_day time_of_day time_of_day
  | ConsecutiveNights string nat "date list"
  | RestAfterNights string "nat list" date date date
  | NightsIn13Weeks string nat int int
  | AgeNight string int "nat list"
  | LacksQualification string "int list" nat
  | HennieNonNight nat date
  | RomyWeekday nat date
  | JasmijnDisallowed nat date
  | MaikeDisallowed nat date
  | MarliesInARow "date list"
  | MarliesNoDaysOff "date list"
  | TeunaBlockLength nat "date list"
  | TeunaNoDaysOff "date list"
  | MariaTooMany nat int
  | CarolienTooMany nat int
  | CarolienNonLate nat string

text \<open>
  \<open>dropna(subset=['employee_id'])\<close>: the filled rows, each paired with its worker id.
\<close>

type_synonym arow = "string \<times> assignment"

definition assigned :: "assignment list \<Rightarrow> arow list" where
  "assigned assignments_df =
     List.map_filter (\<lambda>a. case employee_id a of None \<Rightarrow> None | Some e \<Rightarrow> Some (e, a)) assignments_df"

definition emp_group :: "arow list \<Rightarrow> string \<Rightarrow> assignment list" where
  "emp_group rows emp = map snd (filter (\<lambda>r. fst r = emp) rows)"

definition employees :: "arow list \<Rightarrow> string list" where
  "employees rows = group_keys (map fst rows)"

text \<open>\<open>workers.loc[workers['medewerker_id'] == emp, col].iloc[0]\<close>\<close>

definition worker_of :: "worker list \<Rightarrow> string \<Rightarrow> error + worker" where
  "worker_of ws emp =
     (case filter (\<lambda>w. medewerker_id w = emp) ws of [] \<Rightarrow> Inl IndexError | w # _ \<Rightarrow> Inr w)"

text \<open>\<open>shifts_lookup.loc[sid]\<close>\<close>

definition shift_of :: "shift_instance list \<Rightarrow> nat \<Rightarrow> error + shift_instance" where
  "shift_of ss sid =
     (case filter (\<lambda>s. shift_id s = sid) ss of [] \<Rightarrow> Inl KeyError | s # _ \<Rightarrow> Inr s)"

text \<open>A loop whose body may raise: the messages of the bodies in order, or the first error.\<close>

fun for_each :: "('a \<Rightarrow> error + violation list) \<Rightarrow> 'a list \<Rightarrow> error + violation list" where
  "for_each body [] = Inr []"
| "for_each body (x # xs) =
     (case body x of
        Inl e \<Rightarrow> Inl e
      | Inr vs \<Rightarrow> (case for_each body xs of Inl e \<Rightarrow> Inl e | Inr ws \<Rightarrow> Inr (vs @ ws)))"

definition COA_7_1_exempt :: "string list" where
  "COA_7_1_exempt = [''602859'']"

definition CAO_7_4_exempt :: "string list" where
  "CAO_7_4_exempt = [''2097'', ''602859'']"

subsection \<open>Rules 1 to 5\<close>

definition rule_1 :: "arow list \<Rightarrow> violation list" where
  "rule_1 rows =
     concat (map (\<lambda>sid.
       (let grp = filter (\<lambda>r. shift_id (snd r) = sid) rows
        in if 1 < length grp then [MultipleEmployees sid (map fst grp)] else []))
       (group_keys (map (\<lambda>r. shift_id (snd r)) rows)))"

definition rule_2 :: "arow list \<Rightarrow> violation list" where
  "rule_2 rows =
     concat (map (\<lambda>k.
       (let grp = filter (\<lambda>r. (fst r, shift_date (snd r)) = k) rows
        in if 1 < length grp
           then [MultipleShiftsOnDay (fst k) (int (length grp)) (snd k) (map (\<lambda>r. shift_id (snd r)) grp)]
           else []))
       (group_keys (map (\<lambda>r. (fst r, shift_date (snd r))) rows)))"

definition rule_3 :: "arow list \<Rightarrow> violation list" where
  "rule_3 rows =
     concat (map (\<lambda>emp.
       (let grp = emp_group rows emp
        in concat (map (\<lambda>ns.
             (let next_day = shift_date ns + 1;
                  next_day_shifts = filter (\<lambda>a. \<not> is_night a) (filter (\<lambda>a. shift_date a = next_day) grp)
              in if 0 < length next_day_shifts
                 then [DayShiftAfterNight emp next_day (shift_date ns)] else []))
             (filter is_night grp))))
       (employees rows))"

definition rule_4 :: "worker list \<Rightarrow> arow list \<Rightarrow> error + violation list" where
  "rule_4 ws rows =
     for_each (\<lambda>emp.
       (case worker_of ws emp of
          Inl e \<Rightarrow> Inl e
        | Inr w \<Rightarrow>
            (let grp = emp_group rows emp; max_days = max_days_per_week w
             in Inr (concat (map (\<lambda>wk.
                  (let worked_days = nunique (map shift_date (filter (\<lambda>a. week a = wk) grp))
                   in if max_days < worked_days then [MaxWorkDays emp wk worked_days max_days] else []))
                  (group_keys (map week grp)))))))
       (employees rows)"

definition rule_5 :: "worker list \<Rightarrow> arow list \<Rightarrow> error + violation list" where
  "rule_5 ws rows =
     (let num_weeks = nunique (map (\<lambda>r. week (snd r)) rows)
      in for_each (\<lambda>emp.
           (case worker_of ws emp of
              Inl e \<Rightarrow> Inl e
            | Inr w \<Rightarrow>
                (let cap_minutes = contract_minutes w;
                     total_minutes = sum_list (map duration_min (emp_group rows emp));
                     allowed_total = cap_minutes * num_weeks
                 in Inr (if allowed_total < total_minutes
                         then [ContractHours emp total_minutes allowed_total num_weeks] else []))))
           (employees rows))"

subsection \<open>Rule 6\<close>

text \<open>Python's \<open>str.lower()\<close> on the ASCII letters.\<close>

definition lower_char :: "char \<Rightarrow> char" where
  "lower_char c =
     (case map_of (zip ''ABCDEFGHIJKLMNOPQRSTUVWXYZ'' ''abcdefghijklmnopqrstuvwxyz'') c of
        None \<Rightarrow> c
      | Some d \<Rightarrow> d)"

definition lower :: "string \<Rightarrow> string" where
  "lower s = map lower_char s"

text \<open>The body of the inner loop (lines 86 to 98) for one record and one assigned row.\<close>

definition check_shift :: "unavailability \<Rightarrow> arow \<Rightarrow> violation list" where
  "check_shift r sr =
     (let emp = Medewerker_id r; date_unb = Datum r;
          start_unb = Beschikbaarheid_tijd_vanaf r; end_unb = Beschikbaarheid_tijd_tm r
      in if Some (shift_date (snd sr)) \<noteq> date_unb then []
         else
           (case (start_unb, end_unb) of
              (Some su, Some eu) \<Rightarrow>
                (let overlap = \<not> (end_time (snd sr) \<le> su \<or> eu \<le> start_time (snd sr))
                 in if overlap
                    then [UnavailableTime emp date_unb (shift_id (snd sr))
                            (start_time (snd sr)) (end_time (snd sr)) su eu]
                    else [])
            | _ \<Rightarrow> [FullyUnavailable emp date_unb (shift_id (snd sr))]))"

text \<open>The body of the outer loop (lines 72 to 98) for one record.\<close>

definition check_record :: "worker list \<Rightarrow> arow list \<Rightarrow> unavailability \<Rightarrow> violation list" where
  "check_record ws rows r =
     (let emp = Medewerker_id r
      in if emp \<notin> set (map medewerker_id ws) then []
         else if lower (Beschikbaarheid r) = ''beschikbaar'' then []
         else concat (map (check_shift r) (filter (\<lambda>sr. fst sr = emp) rows)))"

definition rule_6 :: "worker list \<Rightarrow> unavailability list \<Rightarrow> arow list \<Rightarrow> violation list" where
  "rule_6 ws onb_rows rows = concat (map (check_record ws rows) onb_rows)"

subsection \<open>Rules 7.1 to 7.4\<close>

text \<open>\<open>range(n)\<close> for an integer \<open>n\<close>, as list positions.\<close>

definition py_range :: "int \<Rightarrow> nat list" where
  "py_range n = [0..<nat n]"

definition night_dates_of :: "assignment list \<Rightarrow> date list" where
  "night_dates_of grp = sort (map shift_date (filter is_night grp))"

definition rule_7_1 :: "arow list \<Rightarrow> violation list" where
  "rule_7_1 rows =
     concat (map (\<lambda>emp.
       (let dates = night_dates_of (emp_group rows emp);
            max_consec = (if emp \<in> set COA_7_1_exempt then 7 else 5 :: nat)
        in concat (map (\<lambda>i.
             (let window = take (max_consec + 1) (drop i dates)
              in if last window - hd window = int max_consec
                 then [ConsecutiveNights emp max_consec window] else []))
             (py_range (int (length dates) - int max_consec)))))
       (employees rows))"

definition rule_7_2 :: "arow list \<Rightarrow> violation list" where
  "rule_7_2 rows =
     concat (map (\<lambda>emp.
       (let grp = emp_group rows emp; night_dates = night_dates_of grp
        in concat (map (\<lambda>i.
             (let d0 = night_dates ! i; d1 = night_dates ! (i + 1); d2 = night_dates ! (i + 2)
              in if d1 = d0 + 1 \<and> d2 = d1 + 1
                 then (let next_day = d2 + 1
                       in if next_day \<in> set night_dates then []
                          else (let blocked_days = [next_day, next_day + 1];
                                    next_shifts = filter (\<lambda>a. shift_date a \<in> set blocked_days) grp
                                in if 0 < length next_shifts
                                   then [RestAfterNights emp (map shift_id next_shifts) d0 d1 d2]
                                   else []))
                 else []))
             (py_range (int (length night_dates) - 2)))))
       (employees rows))"

text \<open>
  Lines 129 to 134. \<open>range(a, b)\<close> is \<open>[a..b - 1]\<close>. The bounds are read inside the loop
  over the workers; on an empty shift table \<open>min()\<close> is NaN and \<open>range\<close> raises
  \<open>TypeError\<close>.
\<close>

definition rule_7_3 :: "shift_instance list \<Rightarrow> arow list \<Rightarrow> error + violation list" where
  "rule_7_3 ss rows =
     for_each (\<lambda>emp.
       (let emp_nights = filter is_night (emp_group rows emp)
        in if ss = [] then Inl TypeError
           else Inr (concat (map (\<lambda>start_week.
                  (let window = filter (\<lambda>a. start_week \<le> week a \<and> week a < start_week + 13) emp_nights
                   in if 35 < length window
                      then [NightsIn13Weeks emp (length window) start_week (start_week + 12)]
                      else []))
                  [minimum (map week ss) .. maximum (map week ss) - 12 - 1]))))
       (employees rows)"

definition rule_7_4 :: "worker list \<Rightarrow> arow list \<Rightarrow> error + violation list" where
  "rule_7_4 ws rows =
     for_each (\<lambda>emp.
       if emp \<in> set CAO_7_4_exempt then Inr []
       else
         (case worker_of ws emp of
            Inl e \<Rightarrow> Inl e
          | Inr w \<Rightarrow>
              (case leeftijd w of
                 None \<Rightarrow> Inl ValueError
               | Some age \<Rightarrow>
                   (let grp = emp_group rows emp
                    in Inr (if 55 < age \<and> (\<exists>a \<in> set grp. is_night a)
                            then [AgeNight emp age (map shift_id (filter is_night grp))]
                            else [])))))
       (employees rows)"

subsection \<open>Rule 8\<close>

definition rule_8 :: "shift_instance list \<Rightarrow> worker list \<Rightarrow> arow list \<Rightarrow> error + violation list" where
  "rule_8 ss ws rows =
     for_each (\<lambda>row.
       (let sid = shift_id (snd row)
        in case shift_of ss sid of
             Inl e \<Rightarrow> Inl e
           | Inr s \<Rightarrow>
               (let required_quals = qualification s
                in case worker_of ws (fst row) of
                     Inl e \<Rightarrow> Inl e
                   | Inr w \<Rightarrow>
                       (let emp_quals = deskundigheid w
                        in Inr (if \<not> (\<exists>q \<in> set required_quals. q \<in> set emp_quals)
                                then [LacksQualification (fst row) required_quals sid]
                                else [])))))
       rows"

subsection \<open>Rule 9\<close>

text \<open>The block loop of lines 184 to 192 and 204 to 212: maximal runs of consecutive dates.\<close>

definition block_step :: "date list list \<times> date list \<Rightarrow> date \<Rightarrow> date list list \<times> date list" where
  "block_step st d =
     (let blocks = fst st; block = snd st
      in if block = [] \<or> d = last block + 1 then (blocks, block @ [d])
         else (blocks @ [block], [d]))"

definition blocks_of :: "date list \<Rightarrow> date list list" where
  "blocks_of ds =
     (let st = foldl block_step ([], []) ds
      in if snd st \<noteq> [] then fst st @ [snd st] else fst st)"

definition rule_9_5 :: "arow list \<Rightarrow> string \<Rightarrow> violation list" where
  "rule_9_5 rows emp =
     (let mine = emp_group rows emp
      in concat (map (\<lambda>b.
           (if 2 < length b then [MarliesInARow b] else []) @
           (let next_two_days = [last b + 1, last b + 2];
                next_shifts = filter (\<lambda>a. shift_date a \<in> set next_two_days) mine
            in if 0 < length next_shifts then [MarliesNoDaysOff b] else []))
           (blocks_of (sort (map shift_date mine)))))"

definition rule_9_6 :: "arow list \<Rightarrow> string \<Rightarrow> violation list" where
  "rule_9_6 rows emp =
     (let mine = emp_group rows emp;
          blocks = blocks_of (sort (map shift_date (filter is_night mine)))
      in concat (map (\<lambda>ib.
           (let i = fst ib; b = snd ib
            in (if i \<notin> set [0, int (length blocks) - 1] \<and> length b \<noteq> 7
                then [TeunaBlockLength (length b) b] else []) @
               (let following = filter (\<lambda>d. d \<in> set (map (\<lambda>r. shift_date (snd r)) rows))
                                  (map (\<lambda>j. last b + (int j + 1)) [0..<7]);
                    next_shifts = filter (\<lambda>a. shift_date a \<in> set following) mine
                in if 0 < length next_shifts then [TeunaNoDaysOff b] else [])))
           (zip (map int [0..<length blocks]) blocks)))"

definition rule_9_7 :: "arow list \<Rightarrow> string \<Rightarrow> violation list" where
  "rule_9_7 rows emp =
     (let emp_grp = emp_group rows emp
      in concat (map (\<lambda>wk.
           (let week_group = filter (\<lambda>a. week a = wk) emp_grp
            in if 3 < length week_group then [MariaTooMany (length week_group) wk] else []))
           (group_keys (map week emp_grp))))"

definition rule_9_8 :: "shift_instance list \<Rightarrow> arow list \<Rightarrow> string \<Rightarrow> error + violation list" where
  "rule_9_8 ss rows emp =
     (let emp_grp = emp_group rows emp
      in for_each (\<lambda>wk.
           (let week_group = filter (\<lambda>a. week a = wk) emp_grp
            in case for_each (\<lambda>shift_row.
                      (case shift_of ss (shift_id shift_row) of
                         Inl e \<Rightarrow> Inl e
                       | Inr s \<Rightarrow>
                           Inr (if CHR ''A'' \<notin> set (shift_name s) \<and> \<not> is_night shift_row
                                then [CarolienNonLate (shift_id shift_row) (shift_name s)]
                                else [])))
                    week_group of
                 Inl e \<Rightarrow> Inl e
               | Inr vs \<Rightarrow>
                   Inr ((if 3 < length week_group
                         then [CarolienTooMany (length week_group) wk] else []) @ vs)))
           (group_keys (map week emp_grp)))"

text \<open>The body of the loop of lines 155 to 238 for one assigned row.\<close>

definition rule_9_row :: "shift_instance list \<Rightarrow> arow list \<Rightarrow> arow \<Rightarrow> error + violation list" where
  "rule_9_row ss rows row =
     (let emp = fst row; sid = shift_id (snd row)
      in case shift_of ss sid of
           Inl e \<Rightarrow> Inl e
         | Inr shift \<Rightarrow>
             (let dt = shift_date (snd row); dow = day_of_week shift; night = is_night shift
              in case (if emp = ''602056'' then rule_9_8 ss rows emp else Inr []) of
                   Inl e \<Rightarrow> Inl e
                 | Inr v98 \<Rightarrow>
                     Inr ((if emp = ''2097'' \<and> \<not> night then [HennieNonNight sid dt] else []) @
                          (if emp = ''2653'' \<and> dow \<notin> set [5, 6] then [RomyWeekday sid dt] else []) @
                          (if emp = ''3888''
                           then (let allowed = ((dow = 4 \<and> CHR ''A'' \<in> set (shift_name (snd row)))
                                                 \<or> dow \<in> set [5, 6])
                                 in if \<not> allowed then [JasmijnDisallowed sid dt] else [])
                           else []) @
                          (if emp = ''601011'' \<and> dow \<in> set [0, 1, 2] then [MaikeDisallowed sid dt] else []) @
                          (if emp = ''603722'' then rule_9_5 rows emp else []) @
                          (if emp = ''602859'' then rule_9_6 rows emp else []) @
                          (if emp = ''627311'' then rule_9_7 rows emp else []) @
                          v98)))"

definition rule_9 :: "shift_instance list \<Rightarrow> arow list \<Rightarrow> error + violation list" where
  "rule_9 ss rows = for_each (rule_9_row ss rows) rows"

subsection \<open>The whole function\<close>

text \<open>
  \<open>errors\<close> as it stands when line 240 is reached, or the exception raised on the way.
  Rules 1 to 3, 6, 7.1 and 7.2 cannot raise on these types.
\<close>

definition then_do :: "error + 'a \<Rightarrow> ('a \<Rightarrow> error + 'b) \<Rightarrow> error + 'b" where
  "then_do m f = (case m of Inl e \<Rightarrow> Inl e | Inr x \<Rightarrow> f x)"

definition collected_errors :: "model \<Rightarrow> assignment list \<Rightarrow> error + violation list" where
  "collected_errors data assignments_df =
     (let rows = assigned assignments_df;
          ss = shifts data; ws = workers data
      in then_do (rule_4 ws rows) (\<lambda>e4.
         then_do (rule_5 ws rows) (\<lambda>e5.
         then_do (rule_7_3 ss rows) (\<lambda>e73.
         then_do (rule_7_4 ws rows) (\<lambda>e74.
         then_do (rule_8 ss ws rows) (\<lambda>e8.
         then_do (rule_9 ss rows) (\<lambda>e9.
           Inr (rule_1 rows @ rule_2 rows @ rule_3 rows @ e4 @ e5 @ rule_6 ws (onb data) rows @
                rule_7_1 rows @ rule_7_2 rows @ e73 @ e74 @ e8 @ e9))))))))"

text \<open>
  The function ends after printing the collected messages (lines 240 to 245) and has no
  \<open>return\<close> statement: when it does not raise, its value is Python's \<open>None\<close>, here
  \<open>None\<close> of the option type. \<open>Some errors\<close> would be a returned list.
\<close>

definition validate_auto_rooster :: "model \<Rightarrow> assignment list \<Rightarrow> error + violation list option" where
  "validate_auto_rooster data assignments_df =
     (case collected_errors data assignments_df of
        Inl e \<Rightarrow> Inl e
      | Inr errors \<Rightarrow> Inr None)"

text \<open>The truth value that \<open>if errors:\<close> in \<open>generate_schedule\<close> (line 78) gives a returned value.\<close>

definition truthy :: "violation list option \<Rightarrow> bool" where
  "truthy v = (case v of None \<Rightarrow> False | Some errors \<Rightarrow> errors \<noteq> [])"

section \<open>Definitions used in the statements, and example inputs\<close>

subsection \<open>Worker normalisation\<close>

text \<open>
  The qualification codes unpacked from a roster row (the list built on lines 165 to 172),
  and the rows that survive the "niet plannen" filter and the exclusion of the codes 5
  and 6, with their normalised ids.
\<close>

definition codes_of :: "werknemer \<Rightarrow> int list" where
  "codes_of r = (case unpack_deskundigheid (r_deskundigheid r) of Inl e \<Rightarrow> [] | Inr q \<Rightarrow> q)"

definition kept :: "werknemer list \<Rightarrow> werknemer list" where
  "kept df = filter (\<lambda>r. \<not> excluded (codes_of r))
     (filter (\<lambda>r. r_wensen r \<noteq> Some ''niet plannen'')
        (map (\<lambda>r. r\<lparr>r_medewerker_id := normalize_id (r_medewerker_id r)\<rparr>) df))"

subsection \<open>The fixed roster\<close>

text \<open>
  The shift instances before the administrative types are split off, and the minutes that
  lines 236 to 239 subtract from the workers with a given id: the loop visits the ids of
  the fixed-roster rows, so other ids lose nothing.
\<close>

definition horizon_shifts :: "date \<Rightarrow> assignment list option \<Rightarrow> int \<Rightarrow> shift_instance list" where
  "horizon_shifts today prev num_weeks =
     all_shift_instances (start_date_of today prev) (global_start_date_of today prev) num_weeks"

definition fixed_roster_minutes ::
  "date \<Rightarrow> assignment list option \<Rightarrow> vastrooster_row list option \<Rightarrow> int \<Rightarrow> string \<Rightarrow> int" where
  "fixed_roster_minutes today prev df_vastrooster num_weeks emp =
     (let shifts_constant = shifts_constant_of (horizon_shifts today prev num_weeks);
          cu = df_const_unavail_of (start_date_of today prev) shifts_constant (vast_rows df_vastrooster)
      in if emp \<in> set (map cu_medewerker_id cu) then hours_to_subtract shifts_constant cu emp else 0)"

subsection \<open>Readings of a result\<close>

text \<open>
  The id and contract minutes of each returned worker; the (date, global week) pairs of
  the returned prior-period rows and of the first returned shift; and the (date, global
  week) pairs of all dated records of a model.
\<close>

definition worker_minutes :: "error + model \<Rightarrow> error + (string \<times> int) list" where
  "worker_minutes res = map_sum id (\<lambda>m. map (\<lambda>w. (medewerker_id w, contract_minutes w)) (workers m)) res"


definition dated_records :: "model \<Rightarrow> (date \<times> int) list" where
  "dated_records m =
     map (\<lambda>p. (shift_date p, global_week p)) (prev_assignments m) @
     map (\<lambda>s. (shift_date s, global_week s)) (shifts m)"

subsection \<open>Example inputs of the preprocessing stage\<close>

text \<open>
  Roster rows: an on-call worker with the packed code 27, a worker with the excluded code
  5 (packed as 25), and a worker with a 4-hour contract; the records expected for the first
  and the last. A fixed-roster row that puts the last worker on the \<open>KOK\<close> shift on the
  Monday of week 1. Prior-period rows on a Monday (day 0) and the Wednesday after it.
\<close>

definition oproep_row :: werknemer where
  "oproep_row = \<lparr>r_medewerker_id = ''001002-B'', r_wensen = None, r_deskundigheid = Some 27,
     r_contract_soort = Some ''oproep'', r_contracturen = Some 12, r_max_werkdgn_pw = Some 3,
     r_geboortedatum = Some (1985, 11, 2)\<rparr>"

definition oproep_worker :: worker where
  "oproep_worker = \<lparr>medewerker_id = ''1002'', deskundigheid = [2, 7, 3],
     contract_soort = Some ''oproep'', contracturen = Some 0, max_days_per_week = 3,
     contract_hours = 27, contract_minutes = 1620, leeftijd = Some 39\<rparr>"

definition excluded_row :: werknemer where
  "excluded_row = \<lparr>r_medewerker_id = ''1003'', r_wensen = None, r_deskundigheid = Some 25,
     r_contract_soort = Some ''vast'', r_contracturen = Some 24, r_max_werkdgn_pw = Some 4,
     r_geboortedatum = Some (1979, 1, 30)\<rparr>"

definition small_contract_row :: werknemer where
  "small_contract_row = \<lparr>r_medewerker_id = ''1001'', r_wensen = None, r_deskundigheid = Some 2,
     r_contract_soort = Some ''vast'', r_contracturen = Some 4, r_max_werkdgn_pw = Some 5,
     r_geboortedatum = Some (1990, 5, 17)\<rparr>"

definition small_contract_worker :: worker where
  "small_contract_worker = \<lparr>medewerker_id = ''1001'', deskundigheid = [2],
     contract_soort = Some ''vast'', contracturen = Some 4, max_days_per_week = 5,
     contract_hours = 4, contract_minutes = 240, leeftijd = Some 35\<rparr>"

definition kok_monday :: vastrooster_row where
  "kok_monday = \<lparr>v_medewerker_id = ''1001'', v_dag = Some ''maandag'', v_dienst = Some ''KOK'',
     v_weekvolgnr = Some 1\<rparr>"

definition prior_shift :: "date \<Rightarrow> assignment" where
  "prior_shift d =
     \<lparr>shift_id = 0, shift_name = ''D1'', shift_date = d, week = 1, global_week = 0,
      day_of_week = weekday d, absolute_day = 0, start_time = hm 7 0, end_time = hm 15 0,
      duration_min = 480, qualification = [1, 2], is_night = False, day_key = (1, weekday d),
      employee_id = Some ''1001''\<rparr>"

definition boundary_prev :: "assignment list" where
  "boundary_prev = [prior_shift 0, prior_shift 2]"

subsection \<open>Rule 6 in the words of its description\<close>

text \<open>
  The half-open overlap test of two intervals \<open>[s, e)\<close> and \<open>[us, ue)\<close>, and whether a
  record blocks a shift of its own date: always when it has no complete time window,
  otherwise when the test holds for the shift's clock times and the window.
\<close>

definition half_open_overlap :: "time_of_day \<Rightarrow> time_of_day \<Rightarrow> time_of_day \<Rightarrow> time_of_day \<Rightarrow> bool" where
  "half_open_overlap s e us ue = (s < ue \<and> us < e)"

definition blocks :: "unavailability \<Rightarrow> arow \<Rightarrow> bool" where
  "blocks r sr =
     (case (Beschikbaarheid_tijd_vanaf r, Beschikbaarheid_tijd_tm r) of
        (Some su, Some eu) \<Rightarrow> half_open_overlap (start_time (snd sr)) (end_time (snd sr)) su eu
      | _ \<Rightarrow> True)"

subsection \<open>Rule 5: the violations about one worker\<close>


subsection \<open>Example inputs of the validator\<close>

text \<open>
  Shifts on a given day, numbered from a horizon that starts on day 0: the day shift
  \<open>D1\<close> and the night shift \<open>N\<close> of the template. A filled row, a worker with a given
  cap in minutes, and a model holding given shifts, workers and unavailability records.
\<close>

definition mk_shift ::
  "nat \<Rightarrow> string \<Rightarrow> date \<Rightarrow> time_of_day \<Rightarrow> time_of_day \<Rightarrow> int \<Rightarrow> int list \<Rightarrow> shift_instance" where
  "mk_shift sid name d st en dur quals =
     \<lparr>shift_id = sid, shift_name = name, shift_date = d, week = d div 7 + 1,
      global_week = d div 7 + 1, day_of_week = d mod 7, absolute_day = d,
      start_time = st, end_time = en, duration_min = dur, qualification = quals,
      is_night = (name = ''N''), day_key = (d div 7 + 1, d mod 7)\<rparr>"

definition day_shift :: "nat \<Rightarrow> date \<Rightarrow> shift_instance" where
  "day_shift sid d = mk_shift sid ''D1'' d (hm 7 0) (hm 15 0) 480 [1, 2]"

definition night_shift :: "nat \<Rightarrow> date \<Rightarrow> shift_instance" where
  "night_shift sid d = mk_shift sid ''N'' d (hm 22 45) (hm 7 0) 495 [2]"

definition assign :: "shift_instance \<Rightarrow> string \<Rightarrow> assignment" where
  "assign s e = shift_instance.extend s (assignment.fields (Some e))"

definition plain_worker :: "string \<Rightarrow> int \<Rightarrow> worker" where
  "plain_worker emp cap =
     \<lparr>medewerker_id = emp, deskundigheid = [2], contract_soort = Some ''vast'',
      contracturen = Some (of_int cap / 60), max_days_per_week = 5,
      contract_hours = of_int cap / 60, contract_minutes = cap, leeftijd = Some 35\<rparr>"

definition small_model :: "shift_instance list \<Rightarrow> worker list \<Rightarrow> unavailability list \<Rightarrow> model" where
  "small_model ss ws us =
     \<lparr>shifts = ss, workers = ws, onb = us, emp_ids = map medewerker_id ws,
      weeks = group_keys (map week ss),
      night_shifts = map shift_id (filter is_night ss), prev_assignments = []\<rparr>"

text \<open>
  Unavailability records of worker 1001 on day 7: a full day, a window from 16:00 to
  18:00, a window from 23:00 to 23:30, a record with the status "Beschikbaar", and a
  record read without a status.
\<close>

definition full_day :: unavailability where
  "full_day = \<lparr>Medewerker_id = ''1001'', Datum = Some 7, Beschikbaarheid = ''Niet beschikbaar'',
     Beschikbaarheid_tijd_vanaf = None, Beschikbaarheid_tijd_tm = None\<rparr>"

definition evening_only :: unavailability where
  "evening_only = \<lparr>Medewerker_id = ''1001'', Datum = Some 7, Beschikbaarheid = ''Niet beschikbaar'',
     Beschikbaarheid_tijd_vanaf = Some (hm 16 0), Beschikbaarheid_tijd_tm = Some (hm 18 0)\<rparr>"

definition late_evening :: unavailability where
  "late_evening = \<lparr>Medewerker_id = ''1001'', Datum = Some 7, Beschikbaarheid = ''Niet beschikbaar'',
     Beschikbaarheid_tijd_vanaf = Some (hm 23 0), Beschikbaarheid_tijd_tm = Some (hm 23 30)\<rparr>"

definition available_day :: unavailability where
  "available_day = \<lparr>Medewerker_id = ''1001'', Datum = Some 7, Beschikbaarheid = ''Beschikbaar'',
     Beschikbaarheid_tijd_vanaf = None, Beschikbaarheid_tijd_tm = None\<rparr>"

definition unknown_day :: unavailability where
  "unknown_day = onb_columns \<lparr>o_medewerker_id = ''1001'', o_datum_beschikbaarheid = Some 7,
     o_beschikbaarheid = None, o_tijd_vanaf = None, o_tijd_tm = None\<rparr>"

text \<open>
  Proposals: two day shifts in week 1 of a four-week horizon; five shifts over four weeks
  that total 2100 minutes; one day shift on day 7; one shift given to two workers; and 36
  nights on consecutive days from day 0.
\<close>

definition week_one_only :: "assignment list" where
  "week_one_only = [assign (day_shift 0 0) ''1001'', assign (day_shift 1 1) ''1001'']"



definition status_model :: model where
  "status_model = small_model [day_shift 0 7] [plain_worker ''1001'' 1920] [available_day, unknown_day]"

definition status_assignment :: "assignment list" where
  "status_assignment = [assign (day_shift 0 7) ''1001'']"

definition double_model :: model where
  "double_model = small_model [day_shift 0 0, day_shift 1 1]
     [plain_worker ''1001'' 1920, plain_worker ''1002'' 1920] []"

definition double_assignment :: "assignment list" where
  "double_assignment = [assign (day_shift 0 0) ''1001'', assign (day_shift 0 0) ''1002'']"

definition thirty_six_nights :: "assignment list" where
  "thirty_six_nights = map (\<lambda>k. assign (night_shift k (int k)) ''1001'') [0..<36]"

section \<open>Properties of the preprocessing stage\<close>

lemma round_half_even_of_int: "round_half_even (of_int n) = n"
  by (simp add: round_half_even_def)

lemma unpack_all_Inr: "unpack_all rs = Inr lsts \<Longrightarrow> lsts = map codes_of rs"
  by (induction rs arbitrary: lsts) (auto simp: codes_of_def split: sum.splits)

lemma zip_map_self: "zip xs (map f xs) = map (\<lambda>x. (x, f x)) xs"
  by (induction xs) auto

lemma normalize_workers_Inr:
  assumes "normalize_workers cd df = Inr ws"
  shows "ws = map (\<lambda>r. contract_columns cd (r, imply_3 (codes_of r))) (kept df)"
proof -
  define w2 where "w2 = filter (\<lambda>r. r_wensen r \<noteq> Some ''niet plannen'')
        (map (\<lambda>r. r\<lparr>r_medewerker_id := normalize_id (r_medewerker_id r)\<rparr>) df)"
  from assms obtain lsts where u: "unpack_all w2 = Inr lsts"
    and ws: "ws = map (contract_columns cd)
       (map (\<lambda>rq. (fst rq, imply_3 (snd rq))) (filter (\<lambda>rq. \<not> excluded (snd rq)) (zip w2 lsts)))"
    unfolding normalize_workers_def Let_def w2_def by (auto split: sum.splits)
  have z: "zip w2 lsts = map (\<lambda>r. (r, codes_of r)) w2"
    using unpack_all_Inr [OF u] by (simp add: zip_map_self)
  have "filter (\<lambda>rq. \<not> excluded (snd rq)) (zip w2 lsts)
        = map (\<lambda>r. (r, codes_of r)) (filter (\<lambda>r. \<not> excluded (codes_of r)) w2)"
    unfolding z by (simp add: filter_map comp_def)
  then show ?thesis
    unfolding ws kept_def w2_def by (simp add: comp_def)
qed

lemma kept_origin:
  "r' \<in> set (kept df) \<Longrightarrow>
   \<exists>r \<in> set df. r' = r\<lparr>r_medewerker_id := normalize_id (r_medewerker_id r)\<rparr>
      \<and> r_wensen r \<noteq> Some ''niet plannen'' \<and> \<not> excluded (codes_of r)"
  by (auto simp: kept_def codes_of_def)

lemma contract_columns_fields:
  "contract_soort (contract_columns cd (r, q)) = r_contract_soort r"
  "max_days_per_week (contract_columns cd (r, q)) = fillna0 (r_max_werkdgn_pw r)"
  "medewerker_id (contract_columns cd (r, q)) = r_medewerker_id r"
  "deskundigheid (contract_columns cd (r, q)) = q"
  "contracturen (contract_columns cd (r, q)) = oproep_contracturen (r_contract_soort r) (r_contracturen r)"
  by (simp_all add: contract_columns_def Let_def)

lemma contract_columns_fallback:
  assumes "r_contract_soort r = Some ''oproep'' \<or> r_contracturen r = None \<or> r_contracturen r = Some 0"
  shows "contract_hours (contract_columns cd (r, q)) = of_int (fillna0 (r_max_werkdgn_pw r)) * 9"
    and "contract_minutes (contract_columns cd (r, q)) = fillna0 (r_max_werkdgn_pw r) * 9 * 60"
proof -
  have z: "fillna0 (oproep_contracturen (r_contract_soort r) (r_contracturen r)) = 0"
    using assms by (auto simp: oproep_contracturen_def fillna0_def)
  show "contract_hours (contract_columns cd (r, q)) = of_int (fillna0 (r_max_werkdgn_pw r)) * 9"
    by (simp add: contract_columns_def Let_def z)
  have e: "round_half_even (540 * rat_of_int n) = 540 * n" for n
    using round_half_even_of_int [of "540 * n"] by simp
  show "contract_minutes (contract_columns cd (r, q)) = fillna0 (r_max_werkdgn_pw r) * 9 * 60"
    by (simp add: contract_columns_def Let_def z e)
qed

lemmas template_defs = Shifts_def days_def Maandag_def Dinsdag_def Woensdag_def Donderdag_def
   Vrijdag_def Zaterdag_def Zondag_def Begintijd_def Eindtijd_def Duur_def Deskundigheden_def hm_def

lemma shift_requirements_nonempty: "shift_requirements \<noteq> []"
  by (simp add: shift_requirements_def template_defs upt_rec)

lemma renumber_Nil [simp]: "renumber xs = [] \<longleftrightarrow> xs = []"
  by (simp add: renumber_def enumerate_eq_zip)

lemma all_shift_instances_nonempty: "0 < n \<Longrightarrow> all_shift_instances s g n \<noteq> []"
proof -
  assume "0 < n"
  then have "(0::int) \<in> set [0..n - 1]" by simp
  then show ?thesis
    using shift_requirements_nonempty
    by (auto simp: all_shift_instances_def simp del: set_upto)
qed

lemma all_shift_instances_empty: "n \<le> 0 \<Longrightarrow> all_shift_instances s g n = []"
  by (simp add: all_shift_instances_def renumber_def)

lemma subtract_for_id: "map medewerker_id (subtract_for sc cu e ws) = map medewerker_id ws"
  by (induction ws) (auto simp: subtract_for_def)

lemma fold_subtract_for:
  "distinct ids \<Longrightarrow>
   fold (subtract_for sc cu) ids ws =
   map (\<lambda>w. if medewerker_id w \<in> set ids
            then w\<lparr>contract_minutes := contract_minutes w - hours_to_subtract sc cu (medewerker_id w)\<rparr>
            else w) ws"
proof (induction ids arbitrary: ws)
  case Nil
  then show ?case by simp
next
  case (Cons a ids)
  then have d: "distinct ids" and a: "a \<notin> set ids" by simp_all
  show ?case
    unfolding fold_simps Cons.IH [OF d]
    using a by (auto simp: subtract_for_def)
qed

lemma subtract_constant_schedule_map:
  "subtract_constant_schedule sc cu ws =
   map (\<lambda>w. w\<lparr>contract_minutes := contract_minutes w -
         (if medewerker_id w \<in> set (map cu_medewerker_id cu)
          then hours_to_subtract sc cu (medewerker_id w) else 0)\<rparr>) ws"
  unfolding subtract_constant_schedule_def
  by (subst fold_subtract_for) (auto intro!: map_cong)

lemma preprocess_data_workers:
  assumes "preprocess_data today cd df_w df_onb prev dv n = Inr m"
  shows "0 < n"
    and "\<exists>ws0. normalize_workers cd df_w = Inr ws0 \<and>
           workers m = map (\<lambda>w. w\<lparr>contract_minutes := contract_minutes w -
                              fixed_roster_minutes today prev dv n (medewerker_id w)\<rparr>) ws0"
    and "shifts m = assignable_of (assignable_of (horizon_shifts today prev n))"
    and "prev_assignments m = prev_assignments_of today prev (assignable_of (horizon_shifts today prev n))"
proof -
  show n: "0 < n"
  proof (rule ccontr)
    assume "\<not> 0 < n"
    then have "all_shift_instances (start_date_of today prev) (global_start_date_of today prev) n = []"
      by (simp add: all_shift_instances_empty)
    with assms show False by (simp add: preprocess_data_def Let_def)
  qed
  have ne: "all_shift_instances (start_date_of today prev) (global_start_date_of today prev) n \<noteq> []"
    using n by (rule all_shift_instances_nonempty)
  from assms ne obtain ws0 where ws0: "normalize_workers cd df_w = Inr ws0"
    by (auto simp: preprocess_data_def Let_def split: sum.splits)
  from assms ne ws0 show "shifts m = assignable_of (assignable_of (horizon_shifts today prev n))"
    and "prev_assignments m = prev_assignments_of today prev (assignable_of (horizon_shifts today prev n))"
    by (auto simp: preprocess_data_def Let_def horizon_shifts_def)
  from assms ne ws0 have "workers m = subtract_constant_schedule
      (shifts_constant_of (horizon_shifts today prev n))
      (df_const_unavail_of (start_date_of today prev) (shifts_constant_of (horizon_shifts today prev n)) (vast_rows dv))
      ws0"
    by (auto simp: preprocess_data_def Let_def horizon_shifts_def)
  then show "\<exists>ws0. normalize_workers cd df_w = Inr ws0 \<and>
           workers m = map (\<lambda>w. w\<lparr>contract_minutes := contract_minutes w -
                              fixed_roster_minutes today prev dv n (medewerker_id w)\<rparr>) ws0"
    using ws0 by (simp add: subtract_constant_schedule_map fixed_roster_minutes_def Let_def)
qed

lemma preprocess_data_returns:
  assumes "0 < n" and "normalize_workers cd df_w = Inr ws0"
  shows "\<exists>m. preprocess_data today cd df_w df_onb prev dv n = Inr m"
  using all_shift_instances_nonempty [OF assms(1)] assms(2)
  by (simp add: preprocess_data_def Let_def)


lemma set_renumber: "s \<in> set (renumber xs) \<Longrightarrow> \<exists>s0 \<in> set xs. \<exists>i. s = s0\<lparr>shift_id := i\<rparr>"
  by (auto simp: renumber_def in_set_enumerate_eq)

lemma set_all_shift_instances:
  assumes "s \<in> set (all_shift_instances st g n)"
  shows "\<exists>wk rq i. 0 \<le> wk \<and> wk < n \<and> rq \<in> set shift_requirements \<and> s = (shift_row st g wk rq)\<lparr>shift_id := i\<rparr>"
proof -
  from set_renumber [OF assms [unfolded all_shift_instances_def]]
  obtain s0 i where s0: "s0 \<in> set (concat (map (\<lambda>wk. map (shift_row st g wk) shift_requirements) [0..n - 1]))"
    and s: "s = s0\<lparr>shift_id := i\<rparr>" by blast
  from s0 obtain wk rq where "0 \<le> wk" "wk < n" "rq \<in> set shift_requirements" "s0 = shift_row st g wk rq"
    by auto
  with s show ?thesis by blast
qed

lemma shift_requirement_bounds:
  assumes "rq \<in> set shift_requirements"
  shows "0 \<le> rq_duration rq" and "0 \<le> rq_day_of_week rq" and "rq_day_of_week rq < 7"
proof -
  from assms obtain idx day where i: "idx < length Shifts" "day < 7"
    and rq: "rq = \<lparr>rq_shift_name = Shifts ! idx, rq_day_of_week = int day,
                 rq_start_time = Begintijd ! idx, rq_end_time = Eindtijd ! idx,
                 rq_qualification = Deskundigheden ! idx, rq_duration = Duur ! idx\<rparr>"
    by (auto simp: shift_requirements_def split: if_splits)
  have "\<forall>d \<in> set Duur. 0 \<le> d" by (simp add: Duur_def)
  moreover have "Duur ! idx \<in> set Duur"
    using i(1) by (intro nth_mem) (simp add: Duur_def Shifts_def)
  ultimately show "0 \<le> rq_duration rq" by (simp add: rq)
  show "0 \<le> rq_day_of_week rq" "rq_day_of_week rq < 7" using i(2) by (simp_all add: rq)
qed

lemma round_half_even_nonneg: "0 \<le> q \<Longrightarrow> 0 \<le> round_half_even q"
  by (auto simp: round_half_even_def Let_def)

lemma duration_min_nonneg:
  assumes "s \<in> set (all_shift_instances st g n)"
  shows "0 \<le> duration_min s"
proof -
  from set_all_shift_instances [OF assms] obtain wk rq i
    where rq: "rq \<in> set shift_requirements" and s: "s = (shift_row st g wk rq)\<lparr>shift_id := i\<rparr>" by blast
  have "0 \<le> rq_duration rq * 60" using shift_requirement_bounds(1) [OF rq] by simp
  then show ?thesis by (simp add: s shift_row_def Let_def round_half_even_nonneg)
qed

lemma sum_list_nonneg_int: "(\<And>x. x \<in> set xs \<Longrightarrow> (0::int) \<le> f x) \<Longrightarrow> 0 \<le> sum_list (map f xs)"
  by (induction xs) auto

lemma fixed_roster_minutes_nonneg: "0 \<le> fixed_roster_minutes today prev dv n emp"
proof -
  have "0 \<le> duration_min s"
    if "s \<in> set (shifts_constant_of (horizon_shifts today prev n))" for s
  proof -
    from set_renumber [OF that [unfolded shifts_constant_of_def]]
    obtain s0 i where "s0 \<in> set (horizon_shifts today prev n)" "s = s0\<lparr>shift_id := i\<rparr>" by auto
    then show ?thesis using duration_min_nonneg [of s0] by (simp add: horizon_shifts_def)
  qed
  then show ?thesis
    by (auto simp: fixed_roster_minutes_def Let_def hours_to_subtract_def intro!: sum_list_nonneg_int)
qed

lemma contract_minutes_nonneg:
  assumes "0 \<le> fillna0 (r_contracturen r)" and "0 \<le> fillna0 (r_max_werkdgn_pw r)"
  shows "0 \<le> contract_minutes (contract_columns cd (r, q))"
proof -
  have "0 \<le> fillna0 (oproep_contracturen (r_contract_soort r) (r_contracturen r))"
    using assms(1) by (simp add: oproep_contracturen_def fillna0_def)
  then show ?thesis
    using assms(2) by (auto simp: contract_columns_def Let_def intro!: round_half_even_nonneg)
qed


lemma kept_eq:
  "kept df = map (\<lambda>r. r\<lparr>r_medewerker_id := normalize_id (r_medewerker_id r)\<rparr>)
     (filter (\<lambda>r. r_wensen r \<noteq> Some ''niet plannen'' \<and> \<not> excluded (codes_of r)) df)"
  by (induction df) (auto simp: kept_def codes_of_def)

lemma imply_3_props:
  "\<not> excluded q \<Longrightarrow> 5 \<notin> set (imply_3 q) \<and> 6 \<notin> set (imply_3 q)"
  "7 \<in> set (imply_3 q) \<Longrightarrow> 3 \<in> set (imply_3 q)"
  by (auto simp: imply_3_def excluded_def split: if_splits)

lemma shift_date_lower:
  assumes "s \<in> set (all_shift_instances st g n)"
  shows "st \<le> shift_date s"
proof -
  from set_all_shift_instances [OF assms] obtain wk rq i
    where wk: "0 \<le> wk" and rq: "rq \<in> set shift_requirements"
      and s: "s = (shift_row st g wk rq)\<lparr>shift_id := i\<rparr>" by blast
  from shift_requirement_bounds(2) [OF rq] wk show ?thesis
    by (simp add: s shift_row_def Let_def)
qed

lemma shift_date_lower_assignable:
  assumes "s \<in> set (assignable_of (all_shift_instances st g n))"
  shows "st \<le> shift_date s"
proof -
  from set_renumber [OF assms [unfolded assignable_of_def]]
  obtain s0 i where "s0 \<in> set (all_shift_instances st g n)" "s = s0\<lparr>shift_id := i\<rparr>" by auto
  then show ?thesis using shift_date_lower [of s0 st g n] by simp
qed

lemma lookback_of_horizon_empty:
  "lookback st (assignable_of (all_shift_instances st g n)) = []"
proof -
  have "filter (\<lambda>s. shift_date s < st) (assignable_of (all_shift_instances st g n)) = []"
    unfolding filter_empty_conv
  proof
    fix s assume "s \<in> set (assignable_of (all_shift_instances st g n))"
    from shift_date_lower_assignable [OF this] show "\<not> shift_date s < st" by simp
  qed
  then show ?thesis by (simp add: lookback_def Let_def)
qed

lemma no_rows_normalized: "normalize_workers cd [] = Inr []"
  by (simp add: normalize_workers_def)

text \<open>
  Claim C5. Every worker that the normalisation keeps comes from a roster row that is not
  flagged "niet plannen". If that row's contract type is \<open>oproep\<close> (on call), the worker's
  nominal contract hours, and so the nominal minutes, are 0. If the row is on call or its
  reported contract hours are zero or missing, the capacity falls back to the maximum
  number of days per week times 9 hours, in minutes. This is the value before the fixed
  roster is subtracted.
\<close>

theorem on_call_baseline_and_fallback:
  assumes "normalize_workers cd df = Inr ws" and "w \<in> set ws"
  shows "\<exists>r \<in> set df.
           r_wensen r \<noteq> Some ''niet plannen'' \<and>
           medewerker_id w = normalize_id (r_medewerker_id r) \<and>
           max_days_per_week w = fillna0 (r_max_werkdgn_pw r) \<and>
           (r_contract_soort r = Some ''oproep'' \<longrightarrow> contracturen w = Some 0) \<and>
           (r_contract_soort r = Some ''oproep'' \<or> r_contracturen r = None \<or> r_contracturen r = Some 0
              \<longrightarrow> contract_hours w = of_int (max_days_per_week w) * 9
                  \<and> contract_minutes w = max_days_per_week w * 9 * 60)"
proof -
  from normalize_workers_Inr [OF assms(1)] assms(2)
  obtain r' where r': "r' \<in> set (kept df)" and w: "w = contract_columns cd (r', imply_3 (codes_of r'))"
    by auto
  from kept_origin [OF r'] obtain r where r: "r \<in> set df"
    "r' = r\<lparr>r_medewerker_id := normalize_id (r_medewerker_id r)\<rparr>"
    "r_wensen r \<noteq> Some ''niet plannen''" by blast
  have s: "r_contract_soort r' = r_contract_soort r" "r_contracturen r' = r_contracturen r"
    "r_max_werkdgn_pw r' = r_max_werkdgn_pw r" "r_medewerker_id r' = normalize_id (r_medewerker_id r)"
    by (simp_all add: r(2))
  have a: "r_contract_soort r = Some ''oproep'' \<longrightarrow> contracturen w = Some 0"
    by (simp add: w contract_columns_fields s oproep_contracturen_def)
  have b: "r_contract_soort r = Some ''oproep'' \<or> r_contracturen r = None \<or> r_contracturen r = Some 0
      \<longrightarrow> contract_hours w = of_int (max_days_per_week w) * 9
          \<and> contract_minutes w = max_days_per_week w * 9 * 60"
    using contract_columns_fallback [of r' cd "imply_3 (codes_of r')"]
    by (simp add: w contract_columns_fields s)
  have c: "medewerker_id w = normalize_id (r_medewerker_id r)"
    "max_days_per_week w = fillna0 (r_max_werkdgn_pw r)"
    by (simp_all add: w contract_columns_fields s)
  show ?thesis
    using r(1) r(3) a b c by blast
qed

lemma oproep_normalized: "normalize_workers (2025, 6, 1) [oproep_row] = Inr [oproep_worker]"
  by code_simp

theorem on_call_baseline_and_fallback_witness:
  "normalize_workers (2025, 6, 1) [oproep_row] = Inr [oproep_worker] \<and>
   r_contract_soort oproep_row = Some ''oproep'' \<and>
   contracturen oproep_worker = Some 0 \<and> contract_minutes oproep_worker = 3 * 9 * 60"
proof -
  have m: "oproep_worker \<in> set [oproep_worker]" by simp
  have s: "r_contract_soort oproep_row = Some ''oproep''" "fillna0 (r_max_werkdgn_pw oproep_row) = 3"
    by (simp_all add: oproep_row_def fillna0_def)
  from on_call_baseline_and_fallback [OF oproep_normalized m] s
  have "contracturen oproep_worker = Some 0 \<and> contract_minutes oproep_worker = 3 * 9 * 60"
    by simp
  with oproep_normalized s(1) show ?thesis by simp
qed

text \<open>
  Claim C9. In the model returned by \<open>preprocess_data\<close>, no worker's qualification list
  contains 5 or 6, and it contains 3 whenever it contains 7. The roster rows whose codes
  contain 5 or 6 are dropped: the workers returned are, in order, the rows that are not
  flagged "niet plannen" and whose codes are not excluded.
\<close>

theorem qualification_sets:
  assumes "preprocess_data today cd df_w df_onb prev dv n = Inr m"
  shows "(\<forall>w \<in> set (workers m).
            5 \<notin> set (deskundigheid w) \<and> 6 \<notin> set (deskundigheid w) \<and>
            (7 \<in> set (deskundigheid w) \<longrightarrow> 3 \<in> set (deskundigheid w))) \<and>
         map medewerker_id (workers m) =
           map (\<lambda>r. normalize_id (r_medewerker_id r))
             (filter (\<lambda>r. r_wensen r \<noteq> Some ''niet plannen'' \<and> \<not> excluded (codes_of r)) df_w)"
proof -
  from preprocess_data_workers(2) [OF assms] obtain ws0
    where ws0: "normalize_workers cd df_w = Inr ws0"
      and wm: "workers m = map (\<lambda>w. w\<lparr>contract_minutes := contract_minutes w -
                              fixed_roster_minutes today prev dv n (medewerker_id w)\<rparr>) ws0"
    by blast
  note eq = normalize_workers_Inr [OF ws0]
  have q: "map deskundigheid (workers m) = map (\<lambda>r. imply_3 (codes_of r)) (kept df_w)"
    by (simp add: wm eq comp_def contract_columns_fields)
  have ex: "\<not> excluded (codes_of r)" if "r \<in> set (kept df_w)" for r
    using that by (simp add: kept_def)
  have a: "5 \<notin> set (deskundigheid w) \<and> 6 \<notin> set (deskundigheid w) \<and>
            (7 \<in> set (deskundigheid w) \<longrightarrow> 3 \<in> set (deskundigheid w))"
    if "w \<in> set (workers m)" for w
  proof -
    from that have "deskundigheid w \<in> set (map deskundigheid (workers m))" by simp
    then obtain r where "r \<in> set (kept df_w)" "deskundigheid w = imply_3 (codes_of r)"
      unfolding q by auto
    then show ?thesis using imply_3_props [of "codes_of r"] ex by auto
  qed
  have b: "map medewerker_id (workers m) =
           map (\<lambda>r. normalize_id (r_medewerker_id r))
             (filter (\<lambda>r. r_wensen r \<noteq> Some ''niet plannen'' \<and> \<not> excluded (codes_of r)) df_w)"
    by (simp add: wm eq comp_def contract_columns_fields kept_eq)
  from a b show ?thesis by blast
qed

lemma two_rows_normalized:
  "normalize_workers (2025, 6, 1) [oproep_row, excluded_row] = Inr [oproep_worker]"
  by code_simp

theorem qualification_sets_witness:
  "\<exists>m. preprocess_data 0 (2025, 6, 1) [oproep_row, excluded_row] [] None None 1 = Inr m \<and>
       map medewerker_id (workers m) = [''1002''] \<and>
       list_all (\<lambda>w. 5 \<notin> set (deskundigheid w) \<and> 6 \<notin> set (deskundigheid w)) (workers m)"
proof -
  from preprocess_data_returns [OF _ two_rows_normalized, of 1 0 "[]" None None]
  obtain m where m: "preprocess_data 0 (2025, 6, 1) [oproep_row, excluded_row] [] None None 1 = Inr m"
    by auto
  have c: "codes_of oproep_row = [2, 7]" "codes_of excluded_row = [2, 5]"
    by (simp_all add: codes_of_def oproep_row_def excluded_row_def unpack_deskundigheid_def digits.simps)
  have i: "normalize_id ''001002-B'' = ''1002''" by (simp add: normalize_id_def)
  from qualification_sets [OF m] c i
  have "map medewerker_id (workers m) = [''1002'']"
    and "\<forall>w \<in> set (workers m). 5 \<notin> set (deskundigheid w) \<and> 6 \<notin> set (deskundigheid w)"
    by (simp_all add: excluded_def oproep_row_def excluded_row_def)
  with m show ?thesis by (auto simp: list_all_iff)
qed

text \<open>
  Claim C6, as amended. \<open>preprocess_data\<close> applies no lower bound after subtracting the
  fixed roster. Each returned worker's contract minutes are the normalised minutes, which
  are at least 0 when the reported hours and day counts are not negative, minus the summed
  durations of the administrative shifts matched by that worker's fixed-roster rows, a sum
  that is at least 0. The result is at least 0 exactly when that sum does not exceed the
  normalised minutes.
\<close>

theorem contract_minutes_after_fixed_roster:
  assumes "preprocess_data today cd df_w df_onb prev dv n = Inr m"
    and "\<forall>r \<in> set df_w. 0 \<le> fillna0 (r_contracturen r) \<and> 0 \<le> fillna0 (r_max_werkdgn_pw r)"
  shows "\<exists>ws0. normalize_workers cd df_w = Inr ws0 \<and>
           workers m = map (\<lambda>w. w\<lparr>contract_minutes := contract_minutes w -
                              fixed_roster_minutes today prev dv n (medewerker_id w)\<rparr>) ws0 \<and>
           (\<forall>w \<in> set ws0. 0 \<le> contract_minutes w \<and>
                          0 \<le> fixed_roster_minutes today prev dv n (medewerker_id w))"
proof -
  from preprocess_data_workers(2) [OF assms(1)] obtain ws0
    where ws0: "normalize_workers cd df_w = Inr ws0"
      and wm: "workers m = map (\<lambda>w. w\<lparr>contract_minutes := contract_minutes w -
                              fixed_roster_minutes today prev dv n (medewerker_id w)\<rparr>) ws0"
    by blast
  have "0 \<le> contract_minutes w" if "w \<in> set ws0" for w
  proof -
    from that normalize_workers_Inr [OF ws0]
    obtain r' where r': "r' \<in> set (kept df_w)" and w: "w = contract_columns cd (r', imply_3 (codes_of r'))"
      by auto
    from kept_origin [OF r'] obtain r where "r \<in> set df_w"
      "r' = r\<lparr>r_medewerker_id := normalize_id (r_medewerker_id r)\<rparr>" by blast
    with assms(2) have "0 \<le> fillna0 (r_contracturen r')" "0 \<le> fillna0 (r_max_werkdgn_pw r')"
      by auto
    then show ?thesis unfolding w by (rule contract_minutes_nonneg)
  qed
  with ws0 wm fixed_roster_minutes_nonneg show ?thesis by blast
qed

lemma small_contract_normalized:
  "normalize_workers (2025, 6, 1) [small_contract_row] = Inr [small_contract_worker]"
  by code_simp

lemma kok_monday_minutes: "fixed_roster_minutes 0 None (Some [kok_monday]) 1 ''1001'' = 270"
  by (simp add: fixed_roster_minutes_def horizon_shifts_def start_date_of_def global_start_date_of_def
      supplied_def rows_of_def next_monday_def weekday_def vast_rows_def kok_monday_def
      df_const_unavail_of_def normalize_id_def find_shift_id_def vast_day_of_week_def day_map_const_def
      vast_shift_date_def hours_to_subtract_def List.map_filter_def
      shifts_constant_of_def all_shift_instances_def renumber_def shift_row_def Let_def is_admin_def
      shift_requirements_def template_defs upt_rec upto.simps enumerate_eq_zip round_half_even_def)

text \<open>
  Claim C6 as stated fails: a worker with a 4-hour contract (240 minutes) and a fixed
  \<open>KOK\<close> shift on Monday (270 minutes) is returned with \<open>- 30\<close> contract minutes.
\<close>

theorem contract_minutes_negative_counterexample:
  "worker_minutes (preprocess_data 0 (2025, 6, 1) [small_contract_row] [] None (Some [kok_monday]) 1)
     = Inr [(''1001'', - 30)]"
proof -
  from preprocess_data_returns [OF _ small_contract_normalized, of 1 0 "[]" None "Some [kok_monday]"]
  obtain m where m: "preprocess_data 0 (2025, 6, 1) [small_contract_row] [] None (Some [kok_monday]) 1 = Inr m"
    by auto
  from preprocess_data_workers(2) [OF m]
  have "workers m = map (\<lambda>w. w\<lparr>contract_minutes := contract_minutes w -
                              fixed_roster_minutes 0 None (Some [kok_monday]) 1 (medewerker_id w)\<rparr>)
                      [small_contract_worker]"
    by (simp add: small_contract_normalized)
  then show ?thesis
    by (simp add: m worker_minutes_def small_contract_worker_def kok_monday_minutes)
qed

theorem contract_minutes_after_fixed_roster_witness:
  "(\<exists>m. preprocess_data 0 (2025, 6, 1) [small_contract_row] [] None (Some [kok_monday]) 1 = Inr m \<and>
        map contract_minutes (workers m) = [240 - 270]) \<and>
   0 \<le> fillna0 (r_contracturen small_contract_row)"
proof -
  from preprocess_data_returns [OF _ small_contract_normalized, of 1 0 "[]" None "Some [kok_monday]"]
  obtain m where m: "preprocess_data 0 (2025, 6, 1) [small_contract_row] [] None (Some [kok_monday]) 1 = Inr m"
    by auto
  have h: "\<forall>r \<in> set [small_contract_row]. 0 \<le> fillna0 (r_contracturen r) \<and> 0 \<le> fillna0 (r_max_werkdgn_pw r)"
    by (simp add: small_contract_row_def fillna0_def)
  from contract_minutes_after_fixed_roster [OF m h]
  have "map contract_minutes (workers m) = [240 - 270]"
    by (simp add: small_contract_normalized small_contract_worker_def kok_monday_minutes)
  with m h show ?thesis by auto
qed

text \<open>
  Claim C2 asks for a non-empty look-back dated before the horizon. The code copies the
  horizon's own shifts and keeps those dated before the start date (lines 130 to 133),
  without moving any date; every horizon shift is dated on or after the start date, so
  whenever no prior assignments are supplied the returned look-back has no rows.
\<close>

theorem synthesized_lookback_is_empty:
  assumes "preprocess_data today cd df_w df_onb prev dv n = Inr m" and "\<not> supplied prev"
  shows "prev_assignments m = []"
proof -
  have "prev_assignments m = lookback (start_date_of today prev)
          (assignable_of (all_shift_instances (start_date_of today prev) (global_start_date_of today prev) n))"
    using preprocess_data_workers(4) [OF assms(1)] assms(2)
    by (simp add: prev_assignments_of_def horizon_shifts_def)
  then show ?thesis by (simp add: lookback_of_horizon_empty)
qed

theorem synthesized_lookback_is_empty_witness:
  "\<not> supplied None \<and>
   (\<exists>m. preprocess_data 0 (2025, 6, 1) [] [] None None 4 = Inr m \<and> prev_assignments m = [])"
proof -
  from preprocess_data_returns [OF _ no_rows_normalized, of 4 0 "(2025, 6, 1)" "[]" None None]
  obtain m where m: "preprocess_data 0 (2025, 6, 1) [] [] None None 4 = Inr m" by auto
  have s: "\<not> supplied None" by (simp add: supplied_def rows_of_def)
  from synthesized_lookback_is_empty [OF m s] m s show ?thesis by blast
qed



section \<open>Properties of the validator\<close>

lemmas example_defs = mk_shift_def day_shift_def night_shift_def assign_def plain_worker_def
  small_model_def full_day_def evening_only_def hm_def
  shift_instance.defs assignment.defs

lemmas rule_defs = collected_errors_def then_do_def assigned_def List.map_filter_def
  rule_1_def rule_2_def rule_3_def rule_4_def rule_5_def rule_6_def rule_7_1_def rule_7_2_def
  rule_7_3_def rule_7_4_def rule_8_def rule_9_def rule_9_row_def rule_9_5_def rule_9_6_def
  rule_9_7_def rule_9_8_def check_record_def check_shift_def
  employees_def emp_group_def group_keys_def nunique_def worker_of_def shift_of_def
  night_dates_of_def py_range_def COA_7_1_exempt_def CAO_7_4_exempt_def blocks_of_def block_step_def
  Let_def

lemma half_open_overlap_sets:
  "s < e \<Longrightarrow> us < ue \<Longrightarrow> half_open_overlap s e us ue \<longleftrightarrow> {s..<e} \<inter> {us..<ue} \<noteq> {}"
proof -
  assume a: "s < e" "us < ue"
  have "{s..<e} \<inter> {us..<ue} = {max s us..<min e ue}" by auto
  then show ?thesis using a by (auto simp: half_open_overlap_def)
qed





lemma for_each_Inr:
  "for_each body xs = Inr vs \<Longrightarrow>
   (\<forall>x \<in> set xs. \<exists>v. body x = Inr v) \<and> vs = concat (map (\<lambda>x. projr (body x)) xs)"
  by (induction xs arbitrary: vs) (auto split: sum.splits)

lemma for_each_all_Inr:
  "(\<And>x. x \<in> set xs \<Longrightarrow> body x = Inr (g x)) \<Longrightarrow> for_each body xs = Inr (concat (map g xs))"
  by (induction xs) auto

lemma set_employees: "set (employees rows) = fst ` set rows"
  by (simp add: employees_def group_keys_def)


lemma worker_of_Inr: "worker_of ws emp = Inr w \<Longrightarrow> emp \<in> set (map medewerker_id ws)"
proof -
  assume "worker_of ws emp = Inr w"
  then have "filter (\<lambda>w. medewerker_id w = emp) ws \<noteq> []"
    by (auto simp: worker_of_def split: list.splits)
  then show ?thesis by (auto simp: filter_empty_conv)
qed

lemma rule_4_known:
  assumes "rule_4 ws rows = Inr e4" and "sr \<in> set rows"
  shows "fst sr \<in> set (map medewerker_id ws)"
proof (cases "worker_of ws (fst sr)")
  case (Inl e)
  from assms(2) have "fst sr \<in> set (employees rows)" by (simp add: set_employees)
  with for_each_Inr [OF assms(1) [unfolded rule_4_def]] Inl show ?thesis by auto
next
  case (Inr w)
  then show ?thesis by (rule worker_of_Inr)
qed

lemma collected_errors_rule_4:
  "collected_errors data a = Inr es \<Longrightarrow> \<exists>e4. rule_4 (workers data) (assigned a) = Inr e4"
  by (auto simp: collected_errors_def Let_def then_do_def split: sum.splits)

lemma check_shift_status: "check_shift (r\<lparr>Beschikbaarheid := s\<rparr>) = check_shift r"
  by (rule ext) (simp add: check_shift_def)

lemma lower_statuses:
  "lower (fill_status None) = ''onbekend''"
  "lower constant_schedule_status = ''niet beschikbaar (constant schedule)''"
  by (simp_all add: fill_status_def constant_schedule_status_def lower_def lower_char_def)


lemma week_one_only_rows:
  "assigned week_one_only = [(''1001'', assign (day_shift 0 0) ''1001''), (''1001'', assign (day_shift 1 1) ''1001'')]"
  by (simp add: assigned_def List.map_filter_def week_one_only_def assign_def shift_instance.defs assignment.defs)

lemma validate_auto_rooster_no_list: "validate_auto_rooster data a \<noteq> Inr (Some es)"
  by (simp add: validate_auto_rooster_def split: sum.splits)








text \<open>
  Claim C10. In every run of the validator that reaches its end, a record contributes
  nothing when its lowercased status is "beschikbaar", and otherwise it is checked against
  all filled shifts of its worker: the test on the worker id (line 73) never changes the
  result, since rules 4 and 5 raise for a filled shift of an unknown worker. Two statuses
  other than "beschikbaar" give the same result; "Onbekend", put in for a missing status
  (line 246), and the status of the fixed-roster rows (line 230) are such statuses.
\<close>

theorem status_decides_skip:
  assumes "collected_errors data assignments_df = Inr es"
  shows "(\<forall>r. check_record (workers data) (assigned assignments_df) r =
             (if lower (Beschikbaarheid r) = ''beschikbaar'' then []
              else concat (map (check_shift r)
                     (filter (\<lambda>sr. fst sr = Medewerker_id r) (assigned assignments_df))))) \<and>
         (\<forall>r s. lower (Beschikbaarheid r) \<noteq> ''beschikbaar'' \<longrightarrow> lower s \<noteq> ''beschikbaar'' \<longrightarrow>
             check_record (workers data) (assigned assignments_df) (r\<lparr>Beschikbaarheid := s\<rparr>) =
             check_record (workers data) (assigned assignments_df) r) \<and>
         lower (fill_status None) \<noteq> ''beschikbaar'' \<and>
         lower constant_schedule_status \<noteq> ''beschikbaar''"
proof -
  from collected_errors_rule_4 [OF assms] obtain e4
    where e4: "rule_4 (workers data) (assigned assignments_df) = Inr e4" by blast
  have none: "filter (\<lambda>sr. fst sr = emp) (assigned assignments_df) = []"
    if "emp \<notin> set (map medewerker_id (workers data))" for emp
    unfolding filter_empty_conv
  proof
    fix sr assume "sr \<in> set (assigned assignments_df)"
    from rule_4_known [OF e4 this] that show "\<not> fst sr = emp" by auto
  qed
  have a: "check_record (workers data) (assigned assignments_df) r =
             (if lower (Beschikbaarheid r) = ''beschikbaar'' then []
              else concat (map (check_shift r)
                     (filter (\<lambda>sr. fst sr = Medewerker_id r) (assigned assignments_df))))" for r
    using none [of "Medewerker_id r"] by (auto simp: check_record_def Let_def)
  have b: "check_record (workers data) (assigned assignments_df) (r\<lparr>Beschikbaarheid := s\<rparr>) =
             check_record (workers data) (assigned assignments_df) r"
    if "lower (Beschikbaarheid r) \<noteq> ''beschikbaar''" "lower s \<noteq> ''beschikbaar''" for r s
    using that by (simp add: a check_shift_status)
  from a b lower_statuses show ?thesis by simp
qed

lemma status_collected:
  "collected_errors status_model status_assignment = Inr [FullyUnavailable ''1001'' (Some 7) 0]"
  by (simp add: rule_defs status_model_def status_assignment_def available_day_def unknown_day_def
      onb_columns_def fill_status_def lower_def lower_char_def example_defs upto.simps)

theorem status_decides_skip_witness:
  "collected_errors status_model status_assignment = Inr [FullyUnavailable ''1001'' (Some 7) 0] \<and>
   check_record (workers status_model) (assigned status_assignment) available_day = [] \<and>
   check_record (workers status_model) (assigned status_assignment) unknown_day
     = [FullyUnavailable ''1001'' (Some 7) 0]"
proof -
  have l: "lower (Beschikbaarheid available_day) = ''beschikbaar''"
    "lower (Beschikbaarheid unknown_day) \<noteq> ''beschikbaar''"
    by (simp_all add: available_day_def unknown_day_def onb_columns_def fill_status_def lower_def lower_char_def)
  have r: "assigned status_assignment = [(''1001'', assign (day_shift 0 7) ''1001'')]"
    by (simp add: assigned_def List.map_filter_def status_assignment_def assign_def
        shift_instance.defs assignment.defs)
  from status_decides_skip [OF status_collected] l
  have "check_record (workers status_model) (assigned status_assignment) available_day = []"
    and "check_record (workers status_model) (assigned status_assignment) unknown_day
      = concat (map (check_shift unknown_day)
           (filter (\<lambda>sr. fst sr = Medewerker_id unknown_day) (assigned status_assignment)))"
    by simp_all
  then show ?thesis
    unfolding r
    by (simp add: status_collected check_shift_def unknown_day_def onb_columns_def example_defs)
qed

lemma fold_min_ge: "\<forall>x \<in> set xs. a \<le> x \<Longrightarrow> a \<le> y \<Longrightarrow> (a::int) \<le> fold min xs y"
  by (induction xs arbitrary: y) auto

lemma fold_max_le: "\<forall>x \<in> set xs. x \<le> b \<Longrightarrow> y \<le> b \<Longrightarrow> fold max xs y \<le> (b::int)"
  by (induction xs arbitrary: y) auto

lemma minimum_ge: "xs \<noteq> [] \<Longrightarrow> \<forall>x \<in> set xs. a \<le> x \<Longrightarrow> a \<le> minimum xs"
  by (cases xs) (auto intro: fold_min_ge)

lemma maximum_le: "xs \<noteq> [] \<Longrightarrow> \<forall>x \<in> set xs. x \<le> b \<Longrightarrow> maximum xs \<le> b"
  by (cases xs) (auto intro: fold_max_le)

lemma rule_7_3_short:
  assumes "ss \<noteq> []" and "maximum (map week ss) - 13 < minimum (map week ss)"
  shows "rule_7_3 ss rows = Inr []"
proof -
  have e: "[minimum (map week ss) .. maximum (map week ss) - 12 - 1] = []"
    using assms(2) by simp
  have "rule_7_3 ss rows = Inr (concat (map (\<lambda>emp. []) (employees rows)))"
    unfolding rule_7_3_def
    by (rule for_each_all_Inr) (simp only: Let_def e, simp add: assms(1))
  then show ?thesis by simp
qed

lemma week_bounds:
  assumes "s \<in> set (all_shift_instances st g n)"
  shows "1 \<le> week s" and "week s \<le> n"
proof -
  from set_all_shift_instances [OF assms] obtain wk rq i
    where "0 \<le> wk" "wk < n" "s = (shift_row st g wk rq)\<lparr>shift_id := i\<rparr>" by blast
  then show "1 \<le> week s" and "week s \<le> n" by (simp_all add: shift_row_def Let_def)
qed

lemma week_bounds_assignable:
  assumes "s \<in> set (assignable_of (assignable_of (all_shift_instances st g n)))"
  shows "1 \<le> week s \<and> week s \<le> n"
proof -
  from set_renumber [OF assms [unfolded assignable_of_def [of "assignable_of _"]]]
  obtain s1 i where s1: "s1 \<in> set (assignable_of (all_shift_instances st g n))" and s: "s = s1\<lparr>shift_id := i\<rparr>"
    by auto
  from set_renumber [OF s1 [unfolded assignable_of_def]]
  obtain s0 j where "s0 \<in> set (all_shift_instances st g n)" "s1 = s0\<lparr>shift_id := j\<rparr>" by auto
  with week_bounds [of s0 st g n] s show ?thesis by simp
qed

lemma d1_required: "\<exists>rq \<in> set shift_requirements. rq_shift_name rq = ''D1''"
  by (simp add: shift_requirements_def template_defs upt_rec)

lemma is_admin_renumbered [simp]: "is_admin (s\<lparr>shift_id := i\<rparr>) = is_admin s"
  by (simp add: is_admin_def)

lemma filter_renumber_nonempty:
  "filter P xs \<noteq> [] \<Longrightarrow> (\<And>s i. P (s\<lparr>shift_id := i\<rparr>) = P s) \<Longrightarrow> filter P (renumber xs) \<noteq> []"
proof -
  assume ne: "filter P xs \<noteq> []" and inv: "\<And>s i. P (s\<lparr>shift_id := i\<rparr>) = P s"
  from ne obtain x where x: "x \<in> set xs" "P x" by (auto simp: filter_empty_conv)
  then obtain i where i: "i < length xs" "xs ! i = x" by (auto simp: in_set_conv_nth)
  then have "(i, x) \<in> set (enumerate 0 xs)" by (simp add: in_set_enumerate_eq)
  then have "x\<lparr>shift_id := i\<rparr> \<in> set (renumber xs)" by (force simp: renumber_def)
  moreover have "P (x\<lparr>shift_id := i\<rparr>)" using x(2) inv by simp
  ultimately show ?thesis unfolding filter_empty_conv by blast
qed

lemma assignable_nonempty:
  assumes "0 < n"
  shows "assignable_of (assignable_of (all_shift_instances st g n)) \<noteq> []"
proof -
  from d1_required obtain rq where rq: "rq \<in> set shift_requirements" "rq_shift_name rq = ''D1''" by blast
  let ?xs = "concat (map (\<lambda>wk. map (shift_row st g wk) shift_requirements) [0..n - 1])"
  have "(0::int) \<in> set [0..n - 1]" using assms by simp
  then have "shift_row st g 0 rq \<in> set ?xs" using rq(1) by (auto simp del: set_upto)
  moreover have "\<not> is_admin (shift_row st g 0 rq)" by (simp add: is_admin_def shift_row_def Let_def rq(2))
  ultimately have 1: "filter (\<lambda>s. \<not> is_admin s) ?xs \<noteq> []" unfolding filter_empty_conv by blast
  have 2: "filter (\<lambda>s. \<not> is_admin s) (all_shift_instances st g n) \<noteq> []"
    unfolding all_shift_instances_def by (rule filter_renumber_nonempty [OF 1]) simp
  then have 3: "assignable_of (all_shift_instances st g n) \<noteq> []" by (simp add: assignable_of_def)
  have "filter (\<lambda>s. \<not> is_admin s) (assignable_of (all_shift_instances st g n)) \<noteq> []"
    unfolding assignable_of_def [of "all_shift_instances st g n"]
  proof (rule filter_renumber_nonempty)
    show "filter (\<lambda>s. \<not> is_admin s) (filter (\<lambda>s. \<not> is_admin s) (all_shift_instances st g n)) \<noteq> []"
      using 2 by simp
  qed simp
  then show ?thesis by (simp add: assignable_of_def [of "assignable_of _"])
qed

text \<open>
  Claim C4 asks for a violation whenever a 13-week window holds more than 35 nights of one
  worker, the last window included. The loop of line 131 runs over
  \<open>range(min week, max week - 12)\<close>, which stops one window short: for every horizon of
  at most 13 weeks it is empty, so rule 7.3 reports nothing whatever the proposal holds,
  for instance 36 nights of one worker within weeks 1 to 13.
\<close>

theorem short_horizon_never_flags:
  assumes "preprocess_data today cd df_w df_onb prev dv n = Inr m" and "n \<le> 13"
  shows "rule_7_3 (shifts m) rows = Inr []"
proof -
  note sm = preprocess_data_workers(3) [OF assms(1), unfolded horizon_shifts_def]
  have n: "0 < n" by (rule preprocess_data_workers(1) [OF assms(1)])
  have ne: "shifts m \<noteq> []" unfolding sm by (rule assignable_nonempty [OF n])
  have b: "\<forall>w \<in> set (map week (shifts m)). 1 \<le> w \<and> w \<le> n"
    unfolding sm using week_bounds_assignable by auto
  from ne have ne': "map week (shifts m) \<noteq> []" by simp
  have "1 \<le> minimum (map week (shifts m))" using minimum_ge [OF ne'] b by blast
  moreover have "maximum (map week (shifts m)) \<le> n" using maximum_le [OF ne'] b by blast
  ultimately have "maximum (map week (shifts m)) - 13 < minimum (map week (shifts m))"
    using assms(2) by linarith
  with ne show ?thesis by (rule rule_7_3_short)
qed

lemma thirty_six_nights_count:
  "length (filter (\<lambda>a. is_night a \<and> 1 \<le> week a \<and> week a < 1 + 13) thirty_six_nights) = 36"
proof -
  have "\<forall>a \<in> set thirty_six_nights. is_night a \<and> 1 \<le> week a \<and> week a < 1 + 13"
    by (auto simp: thirty_six_nights_def example_defs)
  then have "filter (\<lambda>a. is_night a \<and> 1 \<le> week a \<and> week a < 1 + 13) thirty_six_nights = thirty_six_nights"
    by (simp add: filter_id_conv)
  then show ?thesis by (simp add: thirty_six_nights_def)
qed

theorem short_horizon_never_flags_witness:
  "(13::int) \<le> 13 \<and>
   (\<exists>m. preprocess_data 0 (2025, 6, 1) [] [] None None 13 = Inr m \<and>
        rule_7_3 (shifts m) (assigned thirty_six_nights) = Inr []) \<and>
   length (filter (\<lambda>a. is_night a \<and> 1 \<le> week a \<and> week a < 1 + 13) thirty_six_nights) = 36"
proof -
  from preprocess_data_returns [OF _ no_rows_normalized, of 13 0 "(2025, 6, 1)" "[]" None None]
  obtain m where m: "preprocess_data 0 (2025, 6, 1) [] [] None None 13 = Inr m" by auto
  have h: "(13::int) \<le> 13" by simp
  from short_horizon_never_flags [OF m h] m thirty_six_nights_count show ?thesis by blast
qed

text \<open>
  Claim C1 at a non-compliant proposal: one shift given to two workers. The validator
  collects the violation and prints it, and its value is \<open>None\<close>, since the function has
  no \<open>return\<close> statement; the caller's \<open>if errors:\<close> is false and the proposal is treated
  as compliant.
\<close>

theorem double_assignment_returns_none:
  "collected_errors double_model double_assignment = Inr [MultipleEmployees 0 [''1001'', ''1002'']] \<and>
   validate_auto_rooster double_model double_assignment = Inr None \<and>
   truthy None = False"
proof -
  have c: "collected_errors double_model double_assignment = Inr [MultipleEmployees 0 [''1001'', ''1002'']]"
    by (simp add: rule_defs double_model_def double_assignment_def example_defs upto.simps)
  then show ?thesis by (simp add: validate_auto_rooster_def truthy_def)
qed

section \<open>Further properties\<close>

lemma fold_max_ge_init: "(y::int) \<le> fold max xs y"
  by (induction xs arbitrary: y) (auto intro: order_trans [OF max.cobounded2])

lemma fold_max_ge: "x \<in> set xs \<Longrightarrow> (x::int) \<le> fold max xs y"
proof (induction xs arbitrary: y)
  case Nil
  then show ?case by simp
next
  case (Cons a xs)
  show ?case
  proof (cases "x = a")
    case True
    have "a \<le> max a y" by simp
    also have "\<dots> \<le> fold max xs (max a y)" by (rule fold_max_ge_init)
    finally show ?thesis using True by simp
  next
    case False
    with Cons.prems have "x \<in> set xs" by simp
    from Cons.IH [OF this] show ?thesis by simp
  qed
qed

lemma maximum_ge: "x \<in> set xs \<Longrightarrow> x \<le> maximum xs"
proof (cases xs)
  case Nil
  assume "x \<in> set xs"
  with Nil show ?thesis by simp
next
  case (Cons a as)
  assume "x \<in> set xs"
  with Cons have "x = a \<or> x \<in> set as" by simp
  then show ?thesis
    using fold_max_ge_init [of a as] fold_max_ge [of x as a] Cons by auto
qed

lemma epoch_is_monday: "weekday (global_start_date_of today prev) = 0"
  unfolding global_start_date_of_def next_monday_def weekday_def Let_def
  by (simp split: if_splits) presburger+

lemma horizon_shift_week:
  assumes "s \<in> set (assignable_of (assignable_of (all_shift_instances st g n)))"
  shows "global_week s = (shift_date s - g) div 7 + 1 \<and> st \<le> shift_date s"
proof -
  from set_renumber [OF assms [unfolded assignable_of_def [of "assignable_of _"]]]
  obtain s1 i where s1: "s1 \<in> set (assignable_of (all_shift_instances st g n))" and s: "s = s1\<lparr>shift_id := i\<rparr>"
    by auto
  from set_renumber [OF s1 [unfolded assignable_of_def]]
  obtain s0 j where s0: "s0 \<in> set (all_shift_instances st g n)" and s1': "s1 = s0\<lparr>shift_id := j\<rparr>" by auto
  from set_all_shift_instances [OF s0] obtain wk rq k
    where "s0 = (shift_row st g wk rq)\<lparr>shift_id := k\<rparr>" by blast
  then have "global_week s0 = (shift_date s0 - g) div 7 + 1" by (simp add: shift_row_def Let_def)
  with shift_date_lower [OF s0] s s1' show ?thesis by simp
qed

text \<open>
  The part of the \<open>global_week\<close> invariant that holds on every returned model: the epoch is
  a Monday; a prior-period row carries the number of whole weeks between the epoch and its
  date, a horizon shift carries that number plus 1; and over all dated records of the
  model, prior-period rows and horizon shifts together, a later date never has a smaller
  \<open>global_week\<close>.
\<close>

theorem global_week_monotone:
  assumes "preprocess_data today cd df_w df_onb prev dv n = Inr m"
  shows "weekday (global_start_date_of today prev) = 0 \<and>
         (\<forall>p \<in> set (prev_assignments m).
            global_week p = (shift_date p - global_start_date_of today prev) div 7) \<and>
         (\<forall>s \<in> set (shifts m).
            global_week s = (shift_date s - global_start_date_of today prev) div 7 + 1) \<and>
         (\<forall>x \<in> set (dated_records m). \<forall>y \<in> set (dated_records m). fst x \<le> fst y \<longrightarrow> snd x \<le> snd y)"
proof -
  let ?g = "global_start_date_of today prev"
  let ?st = "start_date_of today prev"
  note sm = preprocess_data_workers(3) [OF assms, unfolded horizon_shifts_def]
  note pm = preprocess_data_workers(4) [OF assms, unfolded horizon_shifts_def]
  have S: "global_week s = (shift_date s - ?g) div 7 + 1 \<and> ?st \<le> shift_date s"
    if "s \<in> set (shifts m)" for s
    using that unfolding sm by (rule horizon_shift_week)
  have P: "global_week p = (shift_date p - ?g) div 7 \<and> shift_date p < ?st"
    if "p \<in> set (prev_assignments m)" for p
  proof (cases "supplied prev")
    case True
    from that obtain r where r: "r \<in> set (rows_of prev)"
      and p: "p = r\<lparr>employee_id := Some (prev_employee_id (employee_id r)),
                    global_week := (shift_date r - ?g) div 7\<rparr>"
      unfolding pm prev_assignments_of_def prev_with_global_week_def using True by auto
    from r have "shift_date r \<le> maximum (map shift_date (rows_of prev))"
      by (intro maximum_ge) simp
    then show ?thesis using True by (simp add: p start_date_of_def)
  next
    case False
    have "prev_assignments m = []"
      unfolding pm prev_assignments_of_def using False by (simp add: lookback_of_horizon_empty)
    with that show ?thesis by simp
  qed
  have M: "snd x \<le> snd y"
    if "x \<in> set (dated_records m)" "y \<in> set (dated_records m)" "fst x \<le> fst y" for x y
  proof -
    have mono: "(a - ?g) div 7 \<le> (b - ?g) div 7" if "a \<le> b" for a b :: int
      using that by (intro zdiv_mono1) simp_all
    from that(1) consider p where "p \<in> set (prev_assignments m)" "x = (shift_date p, global_week p)"
      | s where "s \<in> set (shifts m)" "x = (shift_date s, global_week s)"
      by (auto simp: dated_records_def)
    then show ?thesis
    proof cases
      case 1
      from that(2) consider q where "q \<in> set (prev_assignments m)" "y = (shift_date q, global_week q)"
        | t where "t \<in> set (shifts m)" "y = (shift_date t, global_week t)"
        by (auto simp: dated_records_def)
      then show ?thesis
      proof cases
        case 1
        with \<open>p \<in> set (prev_assignments m)\<close> \<open>x = (shift_date p, global_week p)\<close> P that(3) mono
        show ?thesis by fastforce
      next
        case 2
        from mono [of "shift_date p" "shift_date t"] that(3)
          \<open>x = (shift_date p, global_week p)\<close> 2 P [OF \<open>p \<in> set (prev_assignments m)\<close>] S [OF 2(1)]
        show ?thesis by simp
      qed
    next
      case 2
      from that(2) consider q where "q \<in> set (prev_assignments m)" "y = (shift_date q, global_week q)"
        | t where "t \<in> set (shifts m)" "y = (shift_date t, global_week t)"
        by (auto simp: dated_records_def)
      then show ?thesis
      proof cases
        case 1
        from P [OF 1(1)] S [OF 2(1)] that(3) 1(2) 2(2) show ?thesis by simp
      next
        case 2
        from mono [of "shift_date s" "shift_date t"] that(3)
          \<open>x = (shift_date s, global_week s)\<close> 2 S [OF \<open>s \<in> set (shifts m)\<close>] S [OF 2(1)]
        show ?thesis by simp
      qed
    qed
  qed
  from epoch_is_monday P S M show ?thesis by blast
qed

theorem global_week_monotone_witness:
  "\<exists>m. preprocess_data 0 (2025, 6, 1) [] [] (Some boundary_prev) None 1 = Inr m \<and>
       list_all (\<lambda>p. global_week p = (shift_date p - 0) div 7) (prev_assignments m)"
proof -
  from preprocess_data_returns [OF _ no_rows_normalized, of 1 0 "(2025, 6, 1)" "[]" "Some boundary_prev" None]
  obtain m where m: "preprocess_data 0 (2025, 6, 1) [] [] (Some boundary_prev) None 1 = Inr m" by auto
  have g: "global_start_date_of 0 (Some boundary_prev) = 0"
    by (simp add: global_start_date_of_def supplied_def rows_of_def boundary_prev_def prior_shift_def weekday_def)
  from global_week_monotone [OF m] m show ?thesis
    unfolding g by (auto simp: list_all_iff)
qed

lemma preprocess_data_onb:
  assumes "preprocess_data today cd df_w df_onb prev dv n = Inr m"
  shows "onb m = map onb_columns df_onb @
           map (\<lambda>c. onb_columns (appended_row c))
             (df_const_unavail_of (start_date_of today prev)
                (shifts_constant_of (horizon_shifts today prev n)) (vast_rows dv))"
proof -
  have ne: "all_shift_instances (start_date_of today prev) (global_start_date_of today prev) n \<noteq> []"
    using preprocess_data_workers(1) [OF assms] by (rule all_shift_instances_nonempty)
  from assms ne show ?thesis
    by (auto simp: preprocess_data_def Let_def horizon_shifts_def split: sum.splits)
qed

text \<open>
  The unavailability records that \<open>preprocess_data\<close> derives from the fixed roster, one per
  roster row, are returned after the declared ones with the fixed-roster status and without
  a date: line 245 recomputes \<open>Datum\<close> from a column these rows do not have. Rule 6 compares
  a shift's date with that empty date, so such a record never yields a violation.
\<close>

theorem fixed_roster_records_have_no_date:
  assumes "preprocess_data today cd df_w df_onb prev dv n = Inr m"
  shows "\<exists>k. onb m = map onb_columns df_onb @ k \<and> length k = length (vast_rows dv) \<and>
             (\<forall>r \<in> set k. Datum r = None \<and> Beschikbaarheid r = constant_schedule_status \<and>
                           (\<forall>sr. check_shift r sr = []))"
proof -
  let ?k = "map (\<lambda>c. onb_columns (appended_row c))
             (df_const_unavail_of (start_date_of today prev)
                (shifts_constant_of (horizon_shifts today prev n)) (vast_rows dv))"
  have 1: "onb m = map onb_columns df_onb @ ?k" by (rule preprocess_data_onb [OF assms])
  have 2: "length ?k = length (vast_rows dv)" by (simp add: df_const_unavail_of_def)
  have 3: "Datum r = None \<and> Beschikbaarheid r = constant_schedule_status \<and> (\<forall>sr. check_shift r sr = [])"
    if "r \<in> set ?k" for r
  proof -
    from that obtain c where "r = onb_columns (appended_row c)" by auto
    then show ?thesis
      by (simp add: onb_columns_def appended_row_def fill_status_def check_shift_def)
  qed
  from 1 2 3 show ?thesis by blast
qed

theorem fixed_roster_records_have_no_date_witness:
  "\<exists>m. preprocess_data 0 (2025, 6, 1) [small_contract_row] [] None (Some [kok_monday]) 1 = Inr m \<and>
       map Datum (onb m) = [None]"
proof -
  from preprocess_data_returns [OF _ small_contract_normalized, of 1 0 "[]" None "Some [kok_monday]"]
  obtain m where m: "preprocess_data 0 (2025, 6, 1) [small_contract_row] [] None (Some [kok_monday]) 1 = Inr m"
    by auto
  from fixed_roster_records_have_no_date [OF m]
  obtain k where k: "onb m = k" "length k = 1" "\<forall>r \<in> set k. Datum r = None"
    by (auto simp: vast_rows_def)
  then obtain r where "k = [r]" by (cases k) auto
  with k have d: "map Datum (onb m) = [None]" by simp
  show ?thesis by (rule exI [of _ m]) (simp add: m d)
qed

text \<open>
  Rule 6 on the night shift of the template, from 22:45 to 07:00: the test compares clock
  times, and the end 07:00 is not after the start of a window that begins at 23:00. A
  worker who is unavailable from 23:00 to 23:30 and holds the night shift of that date gets
  no violation.
\<close>

theorem night_shift_window_not_flagged:
  "rule_6 [plain_worker ''1001'' 1920] [late_evening] (assigned [assign (night_shift 0 7) ''1001'']) = [] \<and>
   start_time (night_shift 0 7) = hm 22 45 \<and> end_time (night_shift 0 7) = hm 7 0"
  by (simp add: rule_defs late_evening_def lower_def lower_char_def example_defs)

end
